theory Spec2Isabelle
  imports Main "HOL-Library.AList" "HOL-Library.Sublist"
begin

section \<open>Configuration values\<close>

text \<open>
  The extension reads its settings from the editor's configuration store. A setting that
  is present is a JSON value; a setting that is absent reads as \<open>undefined\<close>, which is
  \<open>None\<close> of \<open>json option\<close> here. Objects are association lists from property names to
  values (the keys of one object are distinct).
\<close>

datatype json =
    JNull
  | JBool bool
  | JNum int
  | JStr string
  | JArr "json list"
  | JObj "(string \<times> json) list"

text \<open>JavaScript's \<open>!!v\<close>.\<close>

fun truthy :: "json option \<Rightarrow> bool" where
  "truthy None = False"
| "truthy (Some JNull) = False"
| "truthy (Some (JBool b)) = b"
| "truthy (Some (JNum n)) = (n \<noteq> 0)"
| "truthy (Some (JStr s)) = (s \<noteq> [])"
| "truthy (Some (JArr xs)) = True"
| "truthy (Some (JObj kvs)) = True"

text \<open>
  \<open>v[k]\<close> for a value \<open>v\<close> that is neither \<open>null\<close> nor \<open>undefined\<close> and a property
  name \<open>k\<close> that is no built-in of strings or arrays (every name the source reads is a
  settings key): only an object has such a property.
\<close>

fun property :: "json \<Rightarrow> string \<Rightarrow> json option" where
  "property (JObj kvs) k = map_of kvs k"
| "property v k = None"

text \<open>\<open>v?.[k]\<close>: optional chaining yields \<open>undefined\<close> on \<open>null\<close> and \<open>undefined\<close>.\<close>

fun opt_prop :: "json option \<Rightarrow> string \<Rightarrow> json option" where
  "opt_prop None k = None"
| "opt_prop (Some JNull) k = None"
| "opt_prop (Some v) k = property v k"

text \<open>\<open>o[k] = v\<close> on an object.\<close>

definition set_prop :: "(string \<times> json) list \<Rightarrow> string \<Rightarrow> json \<Rightarrow> (string \<times> json) list" where
  "set_prop kvs k v = AList.update k v kvs"

subsection \<open>Namespace \<open>Is\<close> and the item shapes\<close>

fun Is_boolean :: "json option \<Rightarrow> bool" where
  "Is_boolean (Some (JBool b)) = True"
| "Is_boolean v = False"

fun Is_string :: "json option \<Rightarrow> bool" where
  "Is_string (Some (JStr s)) = True"
| "Is_string v = False"

fun Is_objectLiteral :: "json option \<Rightarrow> bool" where
  "Is_objectLiteral (Some (JObj kvs)) = True"
| "Is_objectLiteral v = False"

definition ValidateItem_is :: "json \<Rightarrow> bool" where
  "ValidateItem_is item =
     (truthy (Some item) \<and> Is_string (property item ''language'') \<and>
      (Is_boolean (property item ''autoFix'') \<or> property item ''autoFix'' = None))"

definition LegacyDirectoryItem_is :: "json \<Rightarrow> bool" where
  "LegacyDirectoryItem_is item =
     (truthy (Some item) \<and> Is_string (property item ''directory'') \<and>
      Is_boolean (property item ''changeProcessCWD''))"

definition ModeEnum_is :: "json option \<Rightarrow> bool" where
  "ModeEnum_is v = (v = Some (JStr ''auto'') \<or> v = Some (JStr ''location''))"

definition ModeItem_is :: "json \<Rightarrow> bool" where
  "ModeItem_is item = (truthy (Some item) \<and> ModeEnum_is (property item ''mode''))"

definition DirectoryItem_is :: "json \<Rightarrow> bool" where
  "DirectoryItem_is item =
     (truthy (Some item) \<and> Is_string (property item ''directory'') \<and>
      (Is_boolean (property item ''!cwd'') \<or> property item ''!cwd'' = None))"

definition PatternItem_is :: "json \<Rightarrow> bool" where
  "PatternItem_is item =
     (truthy (Some item) \<and> Is_string (property item ''pattern'') \<and>
      (Is_boolean (property item ''!cwd'') \<or> property item ''!cwd'' = None))"

section \<open>The validation gate\<close>

datatype Validate = Validate_on | Validate_off | Validate_probe

record TextDocument =
  uri :: string
  languageId :: string

text \<open>
  The \<open>patched\<close> section of the configuration as \<open>computeValidate\<close> reads it for one
  resource, one field per \<open>config.get\<close>: \<open>enable\<close> is a boolean setting read with the
  default \<open>true\<close>; \<open>validate\<close> and \<open>probe\<close> are read as they are and tested with
  \<open>Array.isArray\<close>.
\<close>

record PatchedConfiguration =
  get_enable :: "bool option"
  get_validate :: "json option"
  get_probe :: "json option"

text \<open>\<open>config.get(key, defaultValue)\<close>.\<close>

definition get_default :: "'a option \<Rightarrow> 'a \<Rightarrow> 'a" where
  "get_default v d = (case v of None \<Rightarrow> d | Some x \<Rightarrow> x)"

text \<open>
  The loop over the \<open>validate\<close> list: true when the loop returns \<open>Validate.on\<close>, false
  when it runs to its end.
\<close>

fun validate_matches :: "json list \<Rightarrow> string \<Rightarrow> bool" where
  "validate_matches [] lang = False"
| "validate_matches (item # items) lang =
     (if Is_string (Some item) \<and> item = JStr lang then True
      else if ValidateItem_is item \<and> property item ''language'' = Some (JStr lang) then True
      else validate_matches items lang)"

text \<open>The loop over the \<open>probe\<close> list.\<close>

fun probe_matches :: "json list \<Rightarrow> string \<Rightarrow> bool" where
  "probe_matches [] lang = False"
| "probe_matches (item # items) lang =
     (if item = JStr lang then True else probe_matches items lang)"

text \<open>
  \<open>computeValidate\<close> reads the configuration of the document's resource (the first
  argument stands for \<open>Workspace.getConfiguration('patched', uri)\<close>) and the process-wide
  set \<open>probeFailed\<close>; it writes neither, so it is a function of both that returns only
  the outcome.
\<close>

definition computeValidate ::
  "(string \<Rightarrow> PatchedConfiguration) \<Rightarrow> string set \<Rightarrow> TextDocument \<Rightarrow> Validate" where
  "computeValidate getConfiguration probeFailed textDocument =
     (let config = getConfiguration (uri textDocument) in
      if \<not> get_default (get_enable config) True then Validate_off
      else
        let languageId = languageId textDocument in
        if (case get_validate config of
              Some (JArr items) \<Rightarrow> validate_matches items languageId
            | _ \<Rightarrow> False) then Validate_on
        else if uri textDocument \<in> probeFailed then Validate_off
        else if (case get_probe config of
                   Some (JArr items) \<Rightarrow> probe_matches items languageId
                 | _ \<Rightarrow> False) then Validate_probe
        else Validate_off)"

text \<open>
  The gate as the specification words it. A language id appears in the \<open>validate\<close> list
  as a bare string or as a \<open>{language}\<close> record (a \<open>ValidateItem\<close>); it appears in the
  \<open>probe\<close> list as a string. A setting that is no list has no entries.
\<close>

definition entries :: "json option \<Rightarrow> json list" where
  "entries v = (case v of Some (JArr items) \<Rightarrow> items | _ \<Rightarrow> [])"

definition in_validate_list :: "json option \<Rightarrow> string \<Rightarrow> bool" where
  "in_validate_list v lang =
     (JStr lang \<in> set (entries v) \<or>
      (\<exists>item \<in> set (entries v). ValidateItem_is item \<and> property item ''language'' = Some (JStr lang)))"

definition in_probe_list :: "json option \<Rightarrow> string \<Rightarrow> bool" where
  "in_probe_list v lang = (JStr lang \<in> set (entries v))"

definition gate_spec :: "PatchedConfiguration \<Rightarrow> string set \<Rightarrow> TextDocument \<Rightarrow> Validate" where
  "gate_spec config probeFailed textDocument =
     (if get_enable config = Some False then Validate_off
      else if in_validate_list (get_validate config) (languageId textDocument) then Validate_on
      else if uri textDocument \<in> probeFailed then Validate_off
      else if in_probe_list (get_probe config) (languageId textDocument) then Validate_probe
      else Validate_off)"

section \<open>The probe-failed set and the events that change it\<close>

text \<open>
  The state of the running client that the handlers below touch: the process-wide set
  \<open>probeFailed\<close>, the map \<open>syncedDocuments\<close> (a JavaScript \<open>Map\<close> from URI to document,
  kept in insertion order) and the notifications sent to the server so far.
\<close>

datatype notification =
    DidCloseTextDocument TextDocument
  | DidOpenTextDocument TextDocument
  | DidChangeWatchedFiles

record ClientData =
  probeFailed :: "string set"
  syncedDocuments :: "(string \<times> TextDocument) list"
  sent :: "notification list"

text \<open>What the handlers read of the editor: the configuration and the open documents.\<close>

record WorkspaceEnv =
  getConfiguration :: "string \<Rightarrow> PatchedConfiguration"
  textDocuments :: "TextDocument list"

text \<open>
  The first loop of the \<open>onDidChangeConfiguration\<close> listener runs over the values of
  \<open>syncedDocuments\<close> while it deletes from the map; an entry deleted before its turn is
  not visited.
\<close>

fun close_disabled ::
  "WorkspaceEnv \<Rightarrow> (string \<times> TextDocument) list \<Rightarrow> ClientData \<Rightarrow> ClientData" where
  "close_disabled env [] st = st"
| "close_disabled env ((key, textDocument) # rest) st =
     (if map_of (syncedDocuments st) key = None then close_disabled env rest st
      else if computeValidate (getConfiguration env) (probeFailed st) textDocument = Validate_off
      then close_disabled env rest
             (st\<lparr>syncedDocuments := AList.delete (uri textDocument) (syncedDocuments st),
                 sent := sent st @ [DidCloseTextDocument textDocument]\<rparr>)
      else close_disabled env rest st)"

fun open_enabled :: "WorkspaceEnv \<Rightarrow> TextDocument list \<Rightarrow> ClientData \<Rightarrow> ClientData" where
  "open_enabled env [] st = st"
| "open_enabled env (textDocument # rest) st =
     (if map_of (syncedDocuments st) (uri textDocument) = None \<and>
         computeValidate (getConfiguration env) (probeFailed st) textDocument \<noteq> Validate_off
      then open_enabled env rest
             (st\<lparr>sent := sent st @ [DidOpenTextDocument textDocument],
                 syncedDocuments :=
                   AList.update (uri textDocument) textDocument (syncedDocuments st)\<rparr>)
      else open_enabled env rest st)"

definition onDidChangeConfiguration :: "WorkspaceEnv \<Rightarrow> ClientData \<Rightarrow> ClientData" where
  "onDidChangeConfiguration env st =
     (let st1 = st\<lparr>probeFailed := {}\<rparr>;
          st2 = close_disabled env (syncedDocuments st1) st1
      in open_enabled env (textDocuments env) st2)"

text \<open>The \<open>didChangeWatchedFile\<close> middleware: clear the set, then forward the event.\<close>

definition didChangeWatchedFile :: "ClientData \<Rightarrow> ClientData" where
  "didChangeWatchedFile st =
     (let st1 = st\<lparr>probeFailed := {}\<rparr>
      in st1\<lparr>sent := sent st1 @ [DidChangeWatchedFiles]\<rparr>)"

text \<open>
  The \<open>didClose\<close> middleware. The close feature's provider, which the probe-failed
  handler calls, sends a document through this middleware.
\<close>

definition didClose :: "TextDocument \<Rightarrow> ClientData \<Rightarrow> ClientData" where
  "didClose document st =
     (if map_of (syncedDocuments st) (uri document) \<noteq> None
      then st\<lparr>syncedDocuments := AList.delete (uri document) (syncedDocuments st),
              sent := sent st @ [DidCloseTextDocument document]\<rparr>
      else st)"

fun send_close :: "string \<Rightarrow> TextDocument list \<Rightarrow> ClientData \<Rightarrow> ClientData" where
  "send_close u [] st = st"
| "send_close u (document # rest) st =
     (if uri document = u then send_close u rest (didClose document st)
      else send_close u rest st)"

text \<open>The handler of the probe-failed request for the document URI \<open>u\<close>.\<close>

definition ProbeFailedRequest_handler ::
  "WorkspaceEnv \<Rightarrow> string \<Rightarrow> ClientData \<Rightarrow> ClientData" where
  "ProbeFailedRequest_handler env u st =
     send_close u (textDocuments env) (st\<lparr>probeFailed := insert u (probeFailed st)\<rparr>)"

section \<open>The migration engine\<close>

subsection \<open>Snapshots\<close>

record 'a InspectData =
  globalValue :: "'a option"
  workspaceValue :: "'a option"
  workspaceFolderValue :: "'a option"

text \<open>The field \<open>val\<close> is the source's \<open>value\<close>.\<close>

record 'a MigrationElement =
  changed :: bool
  val :: "'a option"

record 'a MigrationData =
  global :: "'a MigrationElement"
  workspace :: "'a MigrationElement"
  workspaceFolder :: "'a MigrationElement"

datatype ConfigurationTarget = Global | Workspace | WorkspaceFolder

definition MigrationData_create :: "'a InspectData option \<Rightarrow> 'a MigrationData" where
  "MigrationData_create inspect =
     (case inspect of
        None \<Rightarrow>
          \<lparr>global = \<lparr>changed = False, val = None\<rparr>,
           workspace = \<lparr>changed = False, val = None\<rparr>,
           workspaceFolder = \<lparr>changed = False, val = None\<rparr>\<rparr>
      | Some i \<Rightarrow>
          \<lparr>global = \<lparr>changed = False, val = globalValue i\<rparr>,
           workspace = \<lparr>changed = False, val = workspaceValue i\<rparr>,
           workspaceFolder = \<lparr>changed = False, val = workspaceFolderValue i\<rparr>\<rparr>)"

definition MigrationData_needsUpdate :: "'a MigrationData \<Rightarrow> bool" where
  "MigrationData_needsUpdate data =
     (changed (global data) \<or> changed (workspace data) \<or> changed (workspaceFolder data))"

text \<open>
  The element of one tier of a \<open>MigrationData\<close>: what the accessors
  \<open>(language) => getCodeActionsOnSave(language).global\<close> (and \<open>.workspace\<close>,
  \<open>.workspaceFolder\<close>) select, and the assignment to it.
\<close>

fun element :: "ConfigurationTarget \<Rightarrow> 'a MigrationData \<Rightarrow> 'a MigrationElement" where
  "element Global data = global data"
| "element Workspace data = workspace data"
| "element WorkspaceFolder data = workspaceFolder data"

fun element_update ::
  "ConfigurationTarget \<Rightarrow> 'a MigrationElement \<Rightarrow> 'a MigrationData \<Rightarrow> 'a MigrationData" where
  "element_update Global e data = data\<lparr>global := e\<rparr>"
| "element_update Workspace e data = data\<lparr>workspace := e\<rparr>"
| "element_update WorkspaceFolder e data = data\<lparr>workspaceFolder := e\<rparr>"

text \<open>
  An entry of the \<open>validate\<close> list as the migration types it,
  \<open>(ValidateItem | string)[]\<close>: a bare language id or an object.
\<close>

datatype ValidateEntry = Bare string | Item "(string \<times> json) list"

text \<open>
  What the constructor of \<open>Migration\<close> reads for its resource: the \<open>inspect\<close> results of
  \<open>editor.codeActionsOnSave\<close>, \<open>patched.autoFixOnSave\<close>, \<open>patched.validate\<close> and
  \<open>patched.workingDirectories\<close>, and \<open>workspaceConfig.inspect\<close> as a function of the
  section name. Every \<open>inspect\<close> may return \<open>undefined\<close>.
\<close>

record ResourceConfiguration =
  inspect_codeActionsOnSave :: "json InspectData option"
  inspect_autoFixOnSave :: "json InspectData option"
  inspect_validate :: "ValidateEntry list InspectData option"
  inspect_workingDirectories :: "json InspectData option"
  inspect_section :: "string \<Rightarrow> json InspectData option"

text \<open>
  A \<open>Migration\<close>. The per-language \<open>MigrationData\<close> are objects that
  \<open>getCodeActionsOnSave\<close> allocates and \<open>recordValidate\<close> mutates through the reference it
  was handed, whether or not the map \<open>languageSpecificSettings\<close> holds that reference.
  So the objects live in a store, \<open>objects\<close>, addressed by position, and the map holds
  addresses (in insertion order, as a JavaScript \<open>Map\<close>). \<open>workspaceConfig\<close> is the
  \<open>inspect\<close> of the source's field of that name; a continuation registered with
  \<open>captureDidChangeSetting\<close> is a value of type \<open>'k\<close>.
\<close>

record 'k Migration =
  workspaceConfig :: "string \<Rightarrow> json InspectData option"
  codeActionOnSave :: "json MigrationData"
  objects :: "json MigrationData list"
  languageSpecificSettings :: "(string \<times> nat) list"
  autoFixOnSave :: "json MigrationData"
  validate :: "ValidateEntry list MigrationData"
  workingDirectories :: "json MigrationData"
  didChangeConfiguration :: "'k option"

definition Migration_new :: "ResourceConfiguration \<Rightarrow> 'k Migration" where
  "Migration_new cfg =
     \<lparr>workspaceConfig = inspect_section cfg,
      codeActionOnSave = MigrationData_create (inspect_codeActionsOnSave cfg),
      objects = [],
      languageSpecificSettings = [],
      autoFixOnSave = MigrationData_create (inspect_autoFixOnSave cfg),
      validate = MigrationData_create (inspect_validate cfg),
      workingDirectories = MigrationData_create (inspect_workingDirectories cfg),
      didChangeConfiguration = None\<rparr>"

definition captureDidChangeSetting :: "'k \<Rightarrow> 'k Migration \<Rightarrow> 'k Migration" where
  "captureDidChangeSetting func m = m\<lparr>didChangeConfiguration := Some func\<rparr>"

subsection \<open>\<open>recordAutoFixOnSave\<close>\<close>

definition fixAll_patched :: string where
  "fixAll_patched = ''source.fixAll.patched''"

text \<open>
  The inner \<open>record\<close> of \<open>recordAutoFixOnSave\<close>: the result and the \<open>setting\<close> element as
  the call leaves it. \<open>kvs\<close> is the object \<open>setting.value\<close> after the source has replaced
  a value that is no object literal by \<open>{}\<close>. The assignment
  \<open>setting.value['source.fixAll.patched'] = elem.value\<close> is reached only with a truthy
  \<open>elem.value\<close>.
\<close>

definition recordAutoFixOnSave_record ::
  "json MigrationElement \<Rightarrow> json MigrationElement \<Rightarrow> bool \<times> json MigrationElement" where
  "recordAutoFixOnSave_record elem setting =
     (if opt_prop (val setting) fixAll_patched = Some (JBool False) then (False, setting)
      else
        let kvs = (case val setting of Some (JObj kvs) \<Rightarrow> kvs | _ \<Rightarrow> []);
            autoFix = truthy (val elem);
            sourceFixAll = truthy (map_of kvs ''source.fixAll'')
        in if autoFix \<noteq> sourceFixAll \<and> autoFix \<and> map_of kvs fixAll_patched = None
           then
             let kvs' = (case val elem of None \<Rightarrow> kvs | Some v \<Rightarrow> set_prop kvs fixAll_patched v)
             in (truthy (map_of kvs' fixAll_patched),
                 setting\<lparr>val := Some (JObj kvs'), changed := True\<rparr>)
           else (truthy (map_of kvs ''source.fixAll''), setting\<lparr>val := Some (JObj kvs)\<rparr>))"

definition recordAutoFixOnSave :: "'k Migration \<Rightarrow> (bool \<times> bool \<times> bool) \<times> 'k Migration" where
  "recordAutoFixOnSave m =
     (let (r0, g) = recordAutoFixOnSave_record
                      (global (autoFixOnSave m)) (global (codeActionOnSave m));
          (r1, w) = recordAutoFixOnSave_record
                      (workspace (autoFixOnSave m)) (workspace (codeActionOnSave m));
          (r2, f) = recordAutoFixOnSave_record
                      (workspaceFolder (autoFixOnSave m)) (workspaceFolder (codeActionOnSave m))
      in ((r0, r1, r2),
          m\<lparr>codeActionOnSave := \<lparr>global = g, workspace = w, workspaceFolder = f\<rparr>\<rparr>))"

subsection \<open>\<open>recordValidate\<close>\<close>

text \<open>The section name of a language's settings, the template \<open>[${language}]\<close>.\<close>

definition language_section :: "string \<Rightarrow> string" where
  "language_section language = ''['' @ language @ '']''"

definition alloc :: "json MigrationData \<Rightarrow> 'k Migration \<Rightarrow> nat \<times> 'k Migration" where
  "alloc data m = (length (objects m), m\<lparr>objects := objects m @ [data]\<rparr>)"

text \<open>
  \<open>getCodeActionsOnSave\<close> returns (the address of) the language's \<open>MigrationData\<close>: the one
  in the map when there is one; a new one that is not put into the map when
  \<open>workspaceConfig.inspect\<close> returns \<open>undefined\<close>; otherwise a new one built from the
  section's \<open>editor.codeActionsOnSave\<close> values, which is put into the map.
\<close>

definition getCodeActionsOnSave :: "string \<Rightarrow> 'k Migration \<Rightarrow> nat \<times> 'k Migration" where
  "getCodeActionsOnSave language m =
     (case map_of (languageSpecificSettings m) language of
        Some result \<Rightarrow> (result, m)
      | None \<Rightarrow>
          (case workspaceConfig m (language_section language) of
             None \<Rightarrow> alloc (MigrationData_create None) m
           | Some v \<Rightarrow>
               let gv = opt_prop (globalValue v) ''editor.codeActionsOnSave'';
                   fv = opt_prop (workspaceFolderValue v) ''editor.codeActionsOnSave'';
                   wv = opt_prop (workspaceValue v) ''editor.codeActionsOnSave'';
                   (result, m1) =
                     alloc (MigrationData_create
                              (Some \<lparr>globalValue = gv, workspaceValue = wv,
                                     workspaceFolderValue = fv\<rparr>)) m
               in (result,
                   m1\<lparr>languageSpecificSettings :=
                        AList.update language result (languageSpecificSettings m1)\<rparr>)))"

text \<open>
  The body of the inner \<open>record\<close> of \<open>recordValidate\<close> for the setting it obtained: a
  value that is no object literal is replaced by an empty object; the flag is set to
  \<open>false\<close>, and the element marked, unless the flag is \<open>false\<close> already.
\<close>

definition disable_fixAll :: "json MigrationElement \<Rightarrow> json MigrationElement" where
  "disable_fixAll setting =
     (let kvs = (case val setting of Some (JObj kvs) \<Rightarrow> kvs | _ \<Rightarrow> [])
      in if map_of kvs fixAll_patched \<noteq> Some (JBool False)
         then setting\<lparr>val := Some (JObj (set_prop kvs fixAll_patched (JBool False))),
                     changed := True\<rparr>
         else setting\<lparr>val := Some (JObj kvs)\<rparr>)"

text \<open>
  One turn of the loop of the inner \<open>record\<close>: a bare string is skipped; for an object,
  when \<open>fixAll\<close> holds, \<open>autoFix\<close> is \<open>false\<close> and \<open>language\<close> is a string, the setting of
  the tier is obtained through the accessor and mutated in the store.
\<close>

fun recordValidate_item ::
  "ValidateEntry \<Rightarrow> ConfigurationTarget \<Rightarrow> bool \<Rightarrow> 'k Migration \<Rightarrow> 'k Migration" where
  "recordValidate_item (Bare s) tier fixAll m = m"
| "recordValidate_item (Item item) tier fixAll m =
     (if fixAll \<and> map_of item ''autoFix'' = Some (JBool False) then
        (case map_of item ''language'' of
           Some (JStr language) \<Rightarrow>
             let (a, m1) = getCodeActionsOnSave language m;
                 data = objects m1 ! a;
                 data' = element_update tier (disable_fixAll (element tier data)) data
             in m1\<lparr>objects := (objects m1)[a := data']\<rparr>
         | _ \<Rightarrow> m)
      else m)"

fun recordValidate_items ::
  "ValidateEntry list \<Rightarrow> ConfigurationTarget \<Rightarrow> bool \<Rightarrow> 'k Migration \<Rightarrow> 'k Migration" where
  "recordValidate_items [] tier fixAll m = m"
| "recordValidate_items (item # items) tier fixAll m =
     recordValidate_items items tier fixAll (recordValidate_item item tier fixAll m)"

definition recordValidate_record ::
  "ValidateEntry list MigrationElement \<Rightarrow> ConfigurationTarget \<Rightarrow> bool \<Rightarrow> 'k Migration
   \<Rightarrow> 'k Migration" where
  "recordValidate_record elem tier fixAll m =
     (case val elem of None \<Rightarrow> m | Some items \<Rightarrow> recordValidate_items items tier fixAll m)"

definition recordValidate :: "bool \<times> bool \<times> bool \<Rightarrow> 'k Migration \<Rightarrow> 'k Migration" where
  "recordValidate fixAll m =
     (case fixAll of (f0, f1, f2) \<Rightarrow>
        let m1 = recordValidate_record (global (validate m)) Global f0 m;
            m2 = recordValidate_record (workspace (validate m1)) Workspace
                   (if f1 then f1 else f0) m1
        in recordValidate_record (workspaceFolder (validate m2)) WorkspaceFolder
             (if f2 then f2 else (if f1 then f1 else f0)) m2)"

subsection \<open>\<open>recordWorkingDirectories\<close>\<close>

text \<open>
  The loop tells the shapes apart and rewrites nothing: the rewriting is commented out
  in the source, so every branch leaves the element as it is.
\<close>

fun recordWorkingDirectories_items :: "json list \<Rightarrow> json MigrationElement \<Rightarrow> json MigrationElement" where
  "recordWorkingDirectories_items [] elem = elem"
| "recordWorkingDirectories_items (item # items) elem =
     (if Is_string (Some item) \<or> ModeItem_is item \<or> PatternItem_is item
      then recordWorkingDirectories_items items elem
      else if DirectoryItem_is item \<and> property item ''!cwd'' \<noteq> None
      then recordWorkingDirectories_items items elem
      else recordWorkingDirectories_items items elem)"

definition recordWorkingDirectories_record :: "json MigrationElement \<Rightarrow> json MigrationElement" where
  "recordWorkingDirectories_record elem =
     (case val elem of
        Some (JArr items) \<Rightarrow> recordWorkingDirectories_items items elem
      | _ \<Rightarrow> elem)"

definition recordWorkingDirectories :: "'k Migration \<Rightarrow> 'k Migration" where
  "recordWorkingDirectories m =
     m\<lparr>workingDirectories :=
         \<lparr>global = recordWorkingDirectories_record (global (workingDirectories m)),
          workspace = recordWorkingDirectories_record (workspace (workingDirectories m)),
          workspaceFolder =
            recordWorkingDirectories_record (workspaceFolder (workingDirectories m))\<rparr>\<rparr>"

subsection \<open>\<open>record\<close> and \<open>needsUpdate\<close>\<close>

definition Migration_record :: "'k Migration \<Rightarrow> 'k Migration" where
  "Migration_record m =
     (let (fixAll, m1) = recordAutoFixOnSave m;
          m2 = recordValidate fixAll m1
      in recordWorkingDirectories m2)"

text \<open>The loop of \<open>needsUpdate\<close> over the values of the map.\<close>

fun any_needsUpdate :: "json MigrationData list \<Rightarrow> nat list \<Rightarrow> bool" where
  "any_needsUpdate objs [] = False"
| "any_needsUpdate objs (a # as) =
     (if MigrationData_needsUpdate (objs ! a) then True else any_needsUpdate objs as)"

definition Migration_needsUpdate :: "'k Migration \<Rightarrow> bool" where
  "Migration_needsUpdate m =
     (if MigrationData_needsUpdate (autoFixOnSave m) \<or>
         MigrationData_needsUpdate (validate m) \<or>
         MigrationData_needsUpdate (codeActionOnSave m) \<or>
         MigrationData_needsUpdate (workingDirectories m)
      then True
      else any_needsUpdate (objects m) (map snd (languageSpecificSettings m)))"

subsection \<open>\<open>update\<close>\<close>

text \<open>
  \<open>update\<close> writes to the configuration store through three configuration objects and
  may call the registered continuation. What it does to the world is the list of these
  events, in order. A write is awaited: it resolves or it rejects, which the store
  decides (the parameter \<open>resolves\<close>, given the events so far and the write); a rejected
  write raises in \<open>update\<close>. A continuation is a callback that returns.
\<close>

datatype Config = EditorConfig | EslintConfig | WorkspaceConfig

datatype 'k event =
    ConfigUpdate Config string "json option" ConfigurationTarget
  | Continuation 'k

datatype error = TypeError | UpdateRejected

definition config_update ::
  "('k event list \<Rightarrow> 'k event \<Rightarrow> bool) \<Rightarrow> 'k event \<Rightarrow> 'k event list
   \<Rightarrow> error option \<times> 'k event list" where
  "config_update resolves e t =
     (if resolves t e then (None, t @ [e]) else (Some UpdateRejected, t @ [e]))"

text \<open>The source's \<open>_update\<close>.\<close>

definition do_update ::
  "('k event list \<Rightarrow> 'k event \<Rightarrow> bool) \<Rightarrow> Config \<Rightarrow> string \<Rightarrow> json MigrationElement
   \<Rightarrow> ConfigurationTarget \<Rightarrow> 'k event list \<Rightarrow> error option \<times> 'k event list" where
  "do_update resolves config section newValue target t =
     (if \<not> changed newValue then (None, t)
      else config_update resolves (ConfigUpdate config section (val newValue) target) t)"

text \<open>
  The settings object that \<open>_updateLanguageSetting\<close> writes: the section's current value
  (an empty object when there is none) with \<open>editor.codeActionsOnSave\<close> assigned. Reading
  a property of \<open>null\<close> raises, and so does, in strict mode, assigning a property to a
  primitive value; an array takes the assignment without a change to its elements.
\<close>

definition language_settings :: "json option \<Rightarrow> json option \<Rightarrow> error + json" where
  "language_settings settings newValue =
     (let assign = (\<lambda>kvs. case newValue of
                       None \<Rightarrow> AList.delete ''editor.codeActionsOnSave'' kvs
                     | Some v \<Rightarrow> set_prop kvs ''editor.codeActionsOnSave'' v)
      in case settings of
           None \<Rightarrow> Inr (JObj (assign []))
         | Some (JObj kvs) \<Rightarrow> Inr (JObj (assign kvs))
         | Some (JArr xs) \<Rightarrow> Inr (JArr xs)
         | Some v \<Rightarrow> Inl TypeError)"

text \<open>The source's \<open>_updateLanguageSetting\<close>.\<close>

definition do_updateLanguageSetting ::
  "('k event list \<Rightarrow> 'k event \<Rightarrow> bool) \<Rightarrow> string \<Rightarrow> json option \<Rightarrow> json MigrationElement
   \<Rightarrow> ConfigurationTarget \<Rightarrow> 'k event list \<Rightarrow> error option \<times> 'k event list" where
  "do_updateLanguageSetting resolves section settings newValue target t =
     (if \<not> changed newValue then (None, t)
      else case language_settings settings (val newValue) of
             Inl e \<Rightarrow> (Some e, t)
           | Inr v \<Rightarrow> config_update resolves (ConfigUpdate WorkspaceConfig section (Some v) target) t)"

text \<open>Awaited calls in sequence: the first that raises ends the sequence.\<close>

fun in_sequence ::
  "('t \<Rightarrow> error option \<times> 't) list \<Rightarrow> 't \<Rightarrow> error option \<times> 't" where
  "in_sequence [] t = (None, t)"
| "in_sequence (f # fs) t =
     (case f t of (None, t') \<Rightarrow> in_sequence fs t' | (Some e, t') \<Rightarrow> (Some e, t'))"

text \<open>The values of the validate list as the JSON that a write of them would carry.\<close>

fun entry_json :: "ValidateEntry \<Rightarrow> json" where
  "entry_json (Bare s) = JStr s"
| "entry_json (Item kvs) = JObj kvs"

definition validate_json :: "ValidateEntry list MigrationElement \<Rightarrow> json MigrationElement" where
  "validate_json e = \<lparr>changed = changed e, val = map_option (\<lambda>xs. JArr (map entry_json xs)) (val e)\<rparr>"

text \<open>One turn of the loop over the languages of the map.\<close>

definition update_language ::
  "('k event list \<Rightarrow> 'k event \<Rightarrow> bool) \<Rightarrow> 'k Migration \<Rightarrow> string \<times> nat \<Rightarrow> 'k event list
   \<Rightarrow> error option \<times> 'k event list" where
  "update_language resolves m entry t =
     (case entry of (language, a) \<Rightarrow>
        let v = objects m ! a in
        if MigrationData_needsUpdate v then
          let section = language_section language;
              current = workspaceConfig m section
          in in_sequence
               [do_updateLanguageSetting resolves section
                  (case current of None \<Rightarrow> None | Some c \<Rightarrow> globalValue c) (global v) Global,
                do_updateLanguageSetting resolves section
                  (case current of None \<Rightarrow> None | Some c \<Rightarrow> workspaceValue c) (workspace v)
                  Workspace,
                do_updateLanguageSetting resolves section
                  (case current of None \<Rightarrow> None | Some c \<Rightarrow> workspaceFolderValue c)
                  (workspaceFolder v) WorkspaceFolder] t
        else (None, t))"

text \<open>The \<open>try\<close> block of \<open>update\<close>.\<close>

definition update_try ::
  "('k event list \<Rightarrow> 'k event \<Rightarrow> bool) \<Rightarrow> 'k Migration \<Rightarrow> 'k event list
   \<Rightarrow> error option \<times> 'k event list" where
  "update_try resolves m =
     in_sequence
       ([do_update resolves EditorConfig ''codeActionsOnSave'' (global (codeActionOnSave m)) Global,
         do_update resolves EditorConfig ''codeActionsOnSave'' (workspace (codeActionOnSave m))
           Workspace,
         do_update resolves EditorConfig ''codeActionsOnSave''
           (workspaceFolder (codeActionOnSave m)) WorkspaceFolder,
         do_update resolves EslintConfig ''autoFixOnSave'' (global (autoFixOnSave m)) Global,
         do_update resolves EslintConfig ''autoFixOnSave'' (workspace (autoFixOnSave m)) Workspace,
         do_update resolves EslintConfig ''autoFixOnSave'' (workspaceFolder (autoFixOnSave m))
           WorkspaceFolder,
         do_update resolves EslintConfig ''validate'' (validate_json (global (validate m))) Global,
         do_update resolves EslintConfig ''validate'' (validate_json (workspace (validate m)))
           Workspace,
         do_update resolves EslintConfig ''validate''
           (validate_json (workspaceFolder (validate m))) WorkspaceFolder,
         do_update resolves EslintConfig ''workingDirectories'' (global (workingDirectories m))
           Global,
         do_update resolves EslintConfig ''workingDirectories''
           (workspace (workingDirectories m)) Workspace,
         do_update resolves EslintConfig ''workingDirectories''
           (workspaceFolder (workingDirectories m)) WorkspaceFolder]
        @ map (update_language resolves m) (languageSpecificSettings m))"

text \<open>
  \<open>update\<close>: the \<open>try\<close> block, then the \<open>finally\<close> block, which calls a registered
  continuation and forgets it. The result is what the \<open>try\<close> block raised, if it raised,
  the migration as \<open>update\<close> leaves it, and the events.
\<close>

definition Migration_update ::
  "('k event list \<Rightarrow> 'k event \<Rightarrow> bool) \<Rightarrow> 'k Migration \<Rightarrow> 'k event list
   \<Rightarrow> error option \<times> 'k Migration \<times> 'k event list" where
  "Migration_update resolves m t =
     (case update_try resolves m t of (r, t1) \<Rightarrow>
        (case didChangeConfiguration m of
           Some func \<Rightarrow> (r, m\<lparr>didChangeConfiguration := None\<rparr>, t1 @ [Continuation func])
         | None \<Rightarrow> (r, m, t1)))"

fun is_continuation :: "'k event \<Rightarrow> bool" where
  "is_continuation (Continuation func) = True"
| "is_continuation (ConfigUpdate c s v tg) = False"

subsection \<open>What \<open>recordValidate\<close> leaves alone\<close>

text \<open>
  Two migrations agree on everything but the per-language store and map.
\<close>

definition same_families :: "'k Migration \<Rightarrow> 'k Migration \<Rightarrow> bool" where
  "same_families m' m =
     (codeActionOnSave m' = codeActionOnSave m \<and> autoFixOnSave m' = autoFixOnSave m \<and>
      validate m' = validate m \<and> workingDirectories m' = workingDirectories m \<and>
      workspaceConfig m' = workspaceConfig m \<and>
      didChangeConfiguration m' = didChangeConfiguration m)"

subsection \<open>Predicates on the events of \<open>update\<close>\<close>

text \<open>
  A step appends events to those so far, and each event it appends satisfies \<open>P\<close>.
\<close>

definition emits_only ::
  "('e \<Rightarrow> bool) \<Rightarrow> ('e list \<Rightarrow> error option \<times> 'e list) \<Rightarrow> bool" where
  "emits_only P f = (\<forall>t. \<exists>ws. snd (f t) = t @ ws \<and> list_all P ws)"

text \<open>
  The writes that C10 allows: \<open>codeActionsOnSave\<close> through the editor configuration, and a
  language section through the workspace configuration.
\<close>

fun allowed_write :: "'k event \<Rightarrow> bool" where
  "allowed_write (ConfigUpdate c s v tg) =
     ((c = EditorConfig \<and> s = ''codeActionsOnSave'') \<or>
      (c = WorkspaceConfig \<and> (\<exists>language. s = language_section language)))"
| "allowed_write (Continuation func) = True"

subsection \<open>The fix-all results as the specification words them\<close>

text \<open>\<open>fixAll[0]\<close>, \<open>fixAll[1]\<close> and \<open>fixAll[2]\<close>: the result of a tier.\<close>

fun fixAll_at :: "bool \<times> bool \<times> bool \<Rightarrow> ConfigurationTarget \<Rightarrow> bool" where
  "fixAll_at (f0, f1, f2) Global = f0"
| "fixAll_at (f0, f1, f2) Workspace = f1"
| "fixAll_at (f0, f1, f2) WorkspaceFolder = f2"

text \<open>
  The specification's \<open>result_for_this_tier := linterSpecificFlag ?? genericFixAll\<close>, of a
  \<open>codeActionsOnSave\<close> value.
\<close>

definition spec_tier_result :: "json option \<Rightarrow> bool" where
  "spec_tier_result v =
     (case opt_prop v fixAll_patched of
        Some flag \<Rightarrow> truthy (Some flag)
      | None \<Rightarrow> truthy (opt_prop v ''source.fixAll''))"

text \<open>
  The specification's tier inheritance: the workspace tier takes its own result if that
  is truthy, else the global one; the workspace-folder tier takes its own result if that
  is truthy, else what the workspace tier takes.
\<close>

fun spec_cascade :: "bool \<times> bool \<times> bool \<Rightarrow> ConfigurationTarget \<Rightarrow> bool" where
  "spec_cascade r Global = fixAll_at r Global"
| "spec_cascade r Workspace =
     (if fixAll_at r Workspace then fixAll_at r Workspace else fixAll_at r Global)"
| "spec_cascade r WorkspaceFolder =
     (if fixAll_at r WorkspaceFolder then fixAll_at r WorkspaceFolder
      else if fixAll_at r Workspace then fixAll_at r Workspace else fixAll_at r Global)"

subsection \<open>Example configurations\<close>

definition no_values :: "'a InspectData" where
  "no_values = \<lparr>globalValue = None, workspaceValue = None, workspaceFolderValue = None\<rparr>"

text \<open>The user has switched the linter's fix-all off globally; the legacy flag is on.\<close>

definition cfg_opt_out :: ResourceConfiguration where
  "cfg_opt_out =
     \<lparr>inspect_codeActionsOnSave =
        Some (no_values\<lparr>globalValue := Some (JObj [(''source.fixAll.patched'', JBool False)])\<rparr>),
      inspect_autoFixOnSave = Some (no_values\<lparr>globalValue := Some (JBool True)\<rparr>),
      inspect_validate = None,
      inspect_workingDirectories = None,
      inspect_section = (\<lambda>section. Some no_values)\<rparr>"

text \<open>The user has switched the linter's fix-all on globally, and nothing else is set.\<close>

definition cfg_flag_true :: ResourceConfiguration where
  "cfg_flag_true =
     \<lparr>inspect_codeActionsOnSave =
        Some (no_values\<lparr>globalValue := Some (JObj [(''source.fixAll.patched'', JBool True)])\<rparr>),
      inspect_autoFixOnSave = None,
      inspect_validate = None,
      inspect_workingDirectories = None,
      inspect_section = (\<lambda>section. Some no_values)\<rparr>"

text \<open>
  A legacy configuration: \<open>autoFixOnSave\<close> is on globally, \<open>validate\<close> lists JavaScript and,
  without auto-fix, TypeScript; no \<open>codeActionsOnSave\<close> is set anywhere.
\<close>

definition cfg_legacy :: ResourceConfiguration where
  "cfg_legacy =
     \<lparr>inspect_codeActionsOnSave = Some no_values,
      inspect_autoFixOnSave = Some (no_values\<lparr>globalValue := Some (JBool True)\<rparr>),
      inspect_validate =
        Some (no_values\<lparr>globalValue :=
                Some [Bare ''javascript'',
                      Item [(''language'', JStr ''typescript''), (''autoFix'', JBool False)]]\<rparr>),
      inspect_workingDirectories = None,
      inspect_section = (\<lambda>section. Some no_values)\<rparr>"

text \<open>
  The generic fix-all is on globally, \<open>validate\<close> lists JavaScript without auto-fix, and
  \<open>inspect\<close> of a language section returns \<open>undefined\<close>.
\<close>

definition cfg_detached :: ResourceConfiguration where
  "cfg_detached =
     \<lparr>inspect_codeActionsOnSave =
        Some (no_values\<lparr>globalValue := Some (JObj [(''source.fixAll'', JBool True)])\<rparr>),
      inspect_autoFixOnSave = None,
      inspect_validate =
        Some (no_values\<lparr>globalValue :=
                Some [Item [(''language'', JStr ''javascript''), (''autoFix'', JBool False)]]\<rparr>),
      inspect_workingDirectories = None,
      inspect_section = (\<lambda>section. None)\<rparr>"

text \<open>The same, with an \<open>inspect\<close> of the language sections that returns a value.\<close>

definition cfg_attached :: ResourceConfiguration where
  "cfg_attached = cfg_detached\<lparr>inspect_section := (\<lambda>section. Some no_values)\<rparr>"

text \<open>
  The scenario of the specification for the gate: every resource has \<open>validate = []\<close>
  and \<open>probe = ["javascript"]\<close>; one JavaScript document is open and synchronised.
\<close>

definition doc_js :: TextDocument where
  "doc_js = \<lparr>uri = ''file:///a.js'', languageId = ''javascript''\<rparr>"

definition env_probe :: WorkspaceEnv where
  "env_probe =
     \<lparr>getConfiguration =
        (\<lambda>u. \<lparr>get_enable = None, get_validate = Some (JArr []),
               get_probe = Some (JArr [JStr ''javascript''])\<rparr>),
      textDocuments = [doc_js]\<rparr>"

definition client_start :: ClientData where
  "client_start =
     \<lparr>probeFailed = {}, syncedDocuments = [(''file:///a.js'', doc_js)], sent = []\<rparr>"

section \<open>Working-directory resolution\<close>

text \<open>
  The configuration middleware resolves the working directory of a synchronised document
  from the \<open>workingDirectories\<close> setting in one scan of the list. The path functions it
  calls are Node's and the helpers of the module \<open>utils\<close>, which is not part of these
  sources; they are parameters of the model. \<open>convert2RegExp\<close> yields a regular expression
  or \<open>undefined\<close>; a regular expression is its \<open>exec\<close>, from a string to the match array
  or \<open>null\<close>. Strings are sequences of code units.
\<close>

record PathEnv =
  path_sep :: char
  path_isAbsolute :: "string \<Rightarrow> bool"
  path_join :: "string \<Rightarrow> string \<Rightarrow> string"
  posix_join :: "string \<Rightarrow> string \<Rightarrow> string"
  toOSPath :: "string \<Rightarrow> string"
  toPosixPath :: "string \<Rightarrow> string"
  convert2RegExp :: "string \<Rightarrow> (string \<Rightarrow> string list option) option"

text \<open>\<open>path.posix.sep\<close> and \<open>path.posix.isAbsolute\<close>.\<close>

definition posix_sep :: char where
  "posix_sep = CHR ''/''"

definition posix_isAbsolute :: "string \<Rightarrow> bool" where
  "posix_isAbsolute p = (case p of [] \<Rightarrow> False | c # cs \<Rightarrow> c = CHR ''/'')"

text \<open>
  The resolved working directory, \<open>ModeItem | DirectoryItem | undefined\<close>: a mode entry
  as it stands in the list, or the object \<open>{directory, '!cwd'}\<close> that the scan builds.
\<close>

datatype WorkingDirectory = ModeItem json | DirectoryItem string bool

definition as_string :: "json option \<Rightarrow> string option" where
  "as_string v = (case v of Some (JStr s) \<Rightarrow> Some s | _ \<Rightarrow> None)"

definition cwd_flag :: "json \<Rightarrow> bool" where
  "cwd_flag entry = (case property entry ''!cwd'' of Some (JBool b) \<Rightarrow> b | _ \<Rightarrow> False)"

text \<open>
  The chain of shape tests at the head of the loop body. A mode entry (\<open>None\<close> here)
  becomes the working directory at once and the loop continues; for every other entry
  the chain leaves \<open>directory\<close>, \<open>pattern\<close> and \<open>noCWD\<close>.
\<close>

definition classify :: "json \<Rightarrow> (string option \<times> string option \<times> bool) option" where
  "classify entry =
     (if Is_string (Some entry) then Some (as_string (Some entry), None, False)
      else if LegacyDirectoryItem_is entry
      then Some (as_string (property entry ''directory''), None,
                 \<not> truthy (property entry ''changeProcessCWD''))
      else if DirectoryItem_is entry
      then Some (as_string (property entry ''directory''), None, cwd_flag entry)
      else if PatternItem_is entry
      then Some (None, as_string (property entry ''pattern''), cwd_flag entry)
      else if ModeItem_is entry then None
      else Some (None, None, False))"

text \<open>The computation of \<open>itemValue\<close>.\<close>

definition item_value ::
  "PathEnv \<Rightarrow> string option \<Rightarrow> string option \<Rightarrow> string option \<Rightarrow> string option
   \<Rightarrow> string option" where
  "item_value env workspaceFolderPath filePath directory pattern =
     (if directory \<noteq> None \<or> pattern \<noteq> None then
        (case filePath of
           None \<Rightarrow> None
         | Some fp \<Rightarrow>
             (case directory of
                Some d \<Rightarrow>
                  let d1 = toOSPath env d;
                      d2 = (case workspaceFolderPath of
                              Some w \<Rightarrow> if \<not> path_isAbsolute env d1 then path_join env w d1 else d1
                            | None \<Rightarrow> d1);
                      d3 = (if d2 = [] \<or> last d2 \<noteq> path_sep env then d2 @ [path_sep env] else d2)
                  in if prefix d3 fp then Some d3 else None
              | None \<Rightarrow>
                  (case pattern of
                     Some p \<Rightarrow>
                       if p \<noteq> [] then
                         let p1 = (case workspaceFolderPath of
                                     Some w \<Rightarrow>
                                       if \<not> posix_isAbsolute p
                                       then posix_join env (toPosixPath env w) p else p
                                   | None \<Rightarrow> p);
                             p2 = (if p1 = [] \<or> last p1 \<noteq> posix_sep then p1 @ [posix_sep] else p1)
                         in (case convert2RegExp env p2 of
                               None \<Rightarrow> None
                             | Some regExp \<Rightarrow>
                                 (case regExp fp of
                                    Some (m0 # ms) \<Rightarrow> Some m0
                                  | _ \<Rightarrow> None))
                       else None
                   | None \<Rightarrow> None)))
      else None)"

text \<open>One turn of the loop: the working directory after the entry.\<close>

definition scan_entry ::
  "PathEnv \<Rightarrow> string option \<Rightarrow> string option \<Rightarrow> WorkingDirectory option \<Rightarrow> json
   \<Rightarrow> WorkingDirectory option" where
  "scan_entry env workspaceFolderPath filePath workingDirectory entry =
     (case classify entry of
        None \<Rightarrow> Some (ModeItem entry)
      | Some (directory, pattern, noCWD) \<Rightarrow>
          (case item_value env workspaceFolderPath filePath directory pattern of
             None \<Rightarrow> workingDirectory
           | Some itemValue \<Rightarrow>
               (case workingDirectory of
                  None \<Rightarrow> Some (DirectoryItem itemValue noCWD)
                | Some (ModeItem m) \<Rightarrow> Some (DirectoryItem itemValue noCWD)
                | Some (DirectoryItem d c) \<Rightarrow>
                    if length d < length itemValue then Some (DirectoryItem itemValue noCWD)
                    else workingDirectory)))"

fun scan_entries ::
  "PathEnv \<Rightarrow> string option \<Rightarrow> string option \<Rightarrow> WorkingDirectory option \<Rightarrow> json list
   \<Rightarrow> WorkingDirectory option" where
  "scan_entries env workspaceFolderPath filePath workingDirectory [] = workingDirectory"
| "scan_entries env workspaceFolderPath filePath workingDirectory (entry # rest) =
     scan_entries env workspaceFolderPath filePath
       (scan_entry env workspaceFolderPath filePath workingDirectory entry) rest"

text \<open>
  \<open>settings.workingDirectory\<close> for a document with the file path \<open>filePath\<close> (\<open>undefined\<close>
  when the document's URI is no file URI) in a workspace folder with the path
  \<open>workspaceFolderPath\<close>; \<open>setting\<close> is the value of \<open>workingDirectories\<close>.
\<close>

definition resolveWorkingDirectory ::
  "PathEnv \<Rightarrow> string option \<Rightarrow> string option \<Rightarrow> json option \<Rightarrow> WorkingDirectory option" where
  "resolveWorkingDirectory env workspaceFolderPath filePath setting =
     (case setting of
        Some (JArr es) \<Rightarrow> scan_entries env workspaceFolderPath filePath None es
      | _ \<Rightarrow> None)"

subsection \<open>Matches\<close>

text \<open>
  What an entry matches of the document's path, with its \<open>noCWD\<close>: nothing for a mode
  entry and for an entry whose \<open>itemValue\<close> is \<open>undefined\<close>.
\<close>

definition entry_match ::
  "PathEnv \<Rightarrow> string option \<Rightarrow> string option \<Rightarrow> json \<Rightarrow> (string \<times> bool) option" where
  "entry_match env workspaceFolderPath filePath entry =
     (case classify entry of
        None \<Rightarrow> None
      | Some (directory, pattern, noCWD) \<Rightarrow>
          map_option (\<lambda>v. (v, noCWD))
            (item_value env workspaceFolderPath filePath directory pattern))"

definition matches ::
  "PathEnv \<Rightarrow> string option \<Rightarrow> string option \<Rightarrow> json list \<Rightarrow> (string \<times> bool) list" where
  "matches env workspaceFolderPath filePath es =
     List.map_filter (entry_match env workspaceFolderPath filePath) es"

definition is_mode_entry :: "json \<Rightarrow> bool" where
  "is_mode_entry entry = (classify entry = None)"

text \<open>
  The scan, told on the matches: a match replaces no working directory, a mode entry, or
  a directory that is strictly shorter.
\<close>

fun pick :: "WorkingDirectory option \<Rightarrow> (string \<times> bool) list \<Rightarrow> WorkingDirectory option" where
  "pick wd [] = wd"
| "pick wd ((v, c) # ms) =
     pick (case wd of
             Some (DirectoryItem d b) \<Rightarrow> if length d < length v then Some (DirectoryItem v c) else wd
           | _ \<Rightarrow> Some (DirectoryItem v c)) ms"

text \<open>
  A POSIX platform for the examples, whose entries are absolute directories: there
  \<open>toOSPath\<close> and \<open>toPosixPath\<close> change nothing, and neither \<open>join\<close> nor \<open>convert2RegExp\<close> is
  called (the fields below give them a value all the same).
\<close>

definition posix_env :: PathEnv where
  "posix_env =
     \<lparr>path_sep = CHR ''/'',
      path_isAbsolute = posix_isAbsolute,
      path_join = (\<lambda>a b. a @ ''/'' @ b),
      posix_join = (\<lambda>a b. a @ ''/'' @ b),
      toOSPath = (\<lambda>p. p),
      toPosixPath = (\<lambda>p. p),
      convert2RegExp = (\<lambda>p. None)\<rparr>"

definition directory_entry :: "string \<Rightarrow> json" where
  "directory_entry d = JObj [(''directory'', JStr d)]"

section \<open>Properties of the validation gate\<close>

lemma validate_matches_iff:
  "validate_matches items lang =
     (JStr lang \<in> set items \<or>
      (\<exists>item \<in> set items. ValidateItem_is item \<and> property item ''language'' = Some (JStr lang)))"
  by (induction items) auto

lemma probe_matches_iff: "probe_matches items lang = (JStr lang \<in> set items)"
  by (induction items) auto

lemma validate_case_iff:
  "(case v of Some (JArr items) \<Rightarrow> validate_matches items lang | _ \<Rightarrow> False) =
     in_validate_list v lang"
  by (auto simp: in_validate_list_def entries_def validate_matches_iff
      split: option.splits json.splits)

lemma probe_case_iff:
  "(case v of Some (JArr items) \<Rightarrow> probe_matches items lang | _ \<Rightarrow> False) =
     in_probe_list v lang"
  by (simp add: in_probe_list_def entries_def probe_matches_iff
      split: option.splits json.splits)

lemma enabled_iff: "(\<not> get_default e True) = (e = Some False)"
  by (cases e) (auto simp: get_default_def)

lemma computeValidate_is_gate:
  "computeValidate g pf d = gate_spec (g (uri d)) pf d"
  unfolding computeValidate_def gate_spec_def Let_def
    validate_case_iff probe_case_iff enabled_iff
  by simp



lemma close_disabled_probeFailed [simp]:
  "probeFailed (close_disabled env docs st) = probeFailed st"
  by (induction env docs st rule: close_disabled.induct) auto

lemma open_enabled_probeFailed [simp]:
  "probeFailed (open_enabled env docs st) = probeFailed st"
  by (induction env docs st rule: open_enabled.induct) auto

lemma didClose_probeFailed [simp]: "probeFailed (didClose document st) = probeFailed st"
  by (simp add: didClose_def)

lemma send_close_probeFailed [simp]: "probeFailed (send_close u docs st) = probeFailed st"
  by (induction u docs st rule: send_close.induct) auto

lemma onDidChangeConfiguration_clears:
  "probeFailed (onDidChangeConfiguration env st) = {}"
  by (simp add: onDidChangeConfiguration_def Let_def)

lemma didChangeWatchedFile_clears: "probeFailed (didChangeWatchedFile st) = {}"
  by (simp add: didChangeWatchedFile_def Let_def)

lemma ProbeFailedRequest_handler_adds:
  "probeFailed (ProbeFailedRequest_handler env u st) = insert u (probeFailed st)"
  by (simp add: ProbeFailedRequest_handler_def)

lemma gate_probe_failed:
  "uri d \<in> pf \<Longrightarrow> \<not> in_validate_list (get_validate c) (languageId d) \<Longrightarrow>
   gate_spec c pf d = Validate_off"
  by (simp add: gate_spec_def)

lemma gate_fresh_probe:
  "get_enable c \<noteq> Some False \<Longrightarrow> \<not> in_validate_list (get_validate c) (languageId d) \<Longrightarrow>
   in_probe_list (get_probe c) (languageId d) \<Longrightarrow> gate_spec c {} d = Validate_probe"
  by (simp add: gate_spec_def)


text \<open>
  C6. After the probe-failed request for the URI of a document, \<open>computeValidate\<close> of that
  document is off whenever the \<open>validate\<close> list does not match its language id, also when
  the language id is in the \<open>probe\<close> list. After a configuration-change event or a
  watched-file event the set is empty, so the outcome is the one computed with an empty
  set: probe, when the linter is enabled, the \<open>validate\<close> list does not match and the
  language id is in the \<open>probe\<close> list.
\<close>

theorem probe_failure_memory:
  assumes "\<not> in_validate_list (get_validate (getConfiguration env (uri d))) (languageId d)"
  shows "computeValidate (getConfiguration env)
           (probeFailed (ProbeFailedRequest_handler env (uri d) st)) d = Validate_off
       \<and> probeFailed (onDidChangeConfiguration env st') = {}
       \<and> probeFailed (didChangeWatchedFile st') = {}
       \<and> computeValidate (getConfiguration env')
           (probeFailed (onDidChangeConfiguration env' (ProbeFailedRequest_handler env (uri d) st))) d
          = computeValidate (getConfiguration env') {} d
       \<and> computeValidate (getConfiguration env')
           (probeFailed (didChangeWatchedFile (ProbeFailedRequest_handler env (uri d) st))) d
          = computeValidate (getConfiguration env') {} d
       \<and> (get_enable (getConfiguration env (uri d)) \<noteq> Some False \<and>
          in_probe_list (get_probe (getConfiguration env (uri d))) (languageId d) \<longrightarrow>
          computeValidate (getConfiguration env)
            (probeFailed (onDidChangeConfiguration env (ProbeFailedRequest_handler env (uri d) st))) d
            = Validate_probe \<and>
          computeValidate (getConfiguration env)
            (probeFailed (didChangeWatchedFile (ProbeFailedRequest_handler env (uri d) st))) d
            = Validate_probe)"
  using assms
  by (simp add: computeValidate_is_gate ProbeFailedRequest_handler_adds
      onDidChangeConfiguration_clears didChangeWatchedFile_clears
      gate_probe_failed gate_fresh_probe)

theorem probe_failure_memory_witness:
  "\<not> in_validate_list (get_validate (getConfiguration env_probe (uri doc_js))) (languageId doc_js)
   \<and> computeValidate (getConfiguration env_probe) (probeFailed client_start) doc_js
       = Validate_probe
   \<and> computeValidate (getConfiguration env_probe)
        (probeFailed (ProbeFailedRequest_handler env_probe (uri doc_js) client_start)) doc_js
       = Validate_off
   \<and> computeValidate (getConfiguration env_probe)
        (probeFailed (onDidChangeConfiguration env_probe
           (ProbeFailedRequest_handler env_probe (uri doc_js) client_start))) doc_js
       = Validate_probe
   \<and> computeValidate (getConfiguration env_probe)
        (probeFailed (didChangeWatchedFile
           (ProbeFailedRequest_handler env_probe (uri doc_js) client_start))) doc_js
       = Validate_probe"
proof -
  have h: "\<not> in_validate_list (get_validate (getConfiguration env_probe (uri doc_js)))
             (languageId doc_js)"
    by (simp add: env_probe_def in_validate_list_def entries_def)
  have e: "get_enable (getConfiguration env_probe (uri doc_js)) \<noteq> Some False"
    "in_probe_list (get_probe (getConfiguration env_probe (uri doc_js))) (languageId doc_js)"
    by (simp_all add: env_probe_def in_probe_list_def entries_def doc_js_def)
  have s: "computeValidate (getConfiguration env_probe) (probeFailed client_start) doc_js
             = Validate_probe"
    using h e by (simp add: computeValidate_is_gate gate_spec_def client_start_def)
  from probe_failure_memory[OF h, of client_start client_start env_probe] e
  have "computeValidate (getConfiguration env_probe)
          (probeFailed (ProbeFailedRequest_handler env_probe (uri doc_js) client_start)) doc_js
          = Validate_off"
    and "computeValidate (getConfiguration env_probe)
          (probeFailed (onDidChangeConfiguration env_probe
             (ProbeFailedRequest_handler env_probe (uri doc_js) client_start))) doc_js
          = Validate_probe"
    and "computeValidate (getConfiguration env_probe)
          (probeFailed (didChangeWatchedFile
             (ProbeFailedRequest_handler env_probe (uri doc_js) client_start))) doc_js
          = Validate_probe"
    by blast+
  with h s show ?thesis by blast
qed

section \<open>Properties of the migration engine\<close>

lemma getCodeActionsOnSave_frame:
  "getCodeActionsOnSave language m = (a, m') \<Longrightarrow>
     codeActionOnSave m' = codeActionOnSave m \<and> autoFixOnSave m' = autoFixOnSave m \<and>
     validate m' = validate m \<and> workingDirectories m' = workingDirectories m \<and>
     workspaceConfig m' = workspaceConfig m \<and> didChangeConfiguration m' = didChangeConfiguration m"
  by (auto simp: getCodeActionsOnSave_def alloc_def Let_def split: option.splits)

lemma recordValidate_item_frame: "same_families (recordValidate_item item tier fa m) m"
proof (cases item)
  case (Bare s)
  then show ?thesis by (simp add: same_families_def)
next
  case (Item obj)
  show ?thesis
  proof (cases "fa \<and> map_of obj ''autoFix'' = Some (JBool False)")
    case False
    with Item show ?thesis by (auto simp: same_families_def)
  next
    case True
    show ?thesis
    proof (cases "map_of obj ''language''")
      case None
      with Item True show ?thesis by (simp add: same_families_def)
    next
      case (Some v)
      show ?thesis
      proof (cases v)
        case (JStr language)
        obtain a m1 where g: "getCodeActionsOnSave language m = (a, m1)"
          by (cases "getCodeActionsOnSave language m")
        from getCodeActionsOnSave_frame[OF g] Item True Some JStr g
        show ?thesis by (simp add: same_families_def Let_def)
      qed (use Item True Some in \<open>simp_all add: same_families_def\<close>)
    qed
  qed
qed

lemma same_families_trans: "same_families a b \<Longrightarrow> same_families b c \<Longrightarrow> same_families a c"
  by (simp add: same_families_def)

lemma recordValidate_items_frame: "same_families (recordValidate_items items tier fa m) m"
proof (induction items arbitrary: m)
  case Nil
  then show ?case by (simp add: same_families_def)
next
  case (Cons item items)
  show ?case
    using Cons[of "recordValidate_item item tier fa m"] recordValidate_item_frame[of item tier fa m]
    by (simp add: same_families_trans)
qed

lemma same_families_refl: "same_families m m"
  by (simp add: same_families_def)

lemma recordValidate_record_frame: "same_families (recordValidate_record elem tier fa m) m"
  by (cases "val elem")
     (simp_all add: recordValidate_record_def recordValidate_items_frame same_families_refl)

lemma recordValidate_frame: "same_families (recordValidate fixAll m) m"
proof (cases fixAll)
  case (fields f0 f1 f2)
  show ?thesis
    unfolding recordValidate_def fields Let_def prod.case
    by (blast intro: same_families_trans recordValidate_record_frame)
qed

lemma recordWorkingDirectories_items_id [simp]: "recordWorkingDirectories_items items elem = elem"
  by (induction items) auto

lemma recordWorkingDirectories_record_id [simp]: "recordWorkingDirectories_record elem = elem"
  by (simp add: recordWorkingDirectories_record_def split: option.splits json.splits)

lemma recordWorkingDirectories_id [simp]: "recordWorkingDirectories m = m"
  by (simp add: recordWorkingDirectories_def)

lemma recordAutoFixOnSave_frame:
  "autoFixOnSave (snd (recordAutoFixOnSave m)) = autoFixOnSave m \<and>
   validate (snd (recordAutoFixOnSave m)) = validate m \<and>
   workingDirectories (snd (recordAutoFixOnSave m)) = workingDirectories m \<and>
   objects (snd (recordAutoFixOnSave m)) = objects m \<and>
   languageSpecificSettings (snd (recordAutoFixOnSave m)) = languageSpecificSettings m \<and>
   didChangeConfiguration (snd (recordAutoFixOnSave m)) = didChangeConfiguration m"
  by (simp add: recordAutoFixOnSave_def Let_def split: prod.splits)

lemma Migration_record_unfold:
  "Migration_record m = recordValidate (fst (recordAutoFixOnSave m)) (snd (recordAutoFixOnSave m))"
  by (simp add: Migration_record_def Let_def split: prod.splits)

lemma record_explicit_false:
  "opt_prop (val setting) fixAll_patched = Some (JBool False) \<Longrightarrow>
   recordAutoFixOnSave_record elem setting = (False, setting)"
  by (simp add: recordAutoFixOnSave_record_def)

lemma recordAutoFixOnSave_element:
  "element tier (codeActionOnSave (snd (recordAutoFixOnSave m))) =
     snd (recordAutoFixOnSave_record (element tier (autoFixOnSave m)) (element tier (codeActionOnSave m)))"
  by (cases tier) (simp_all add: recordAutoFixOnSave_def Let_def split: prod.splits)

text \<open>
  C2. For every tier: when the tier's \<open>codeActionsOnSave\<close> value has
  \<open>source.fixAll.patched\<close> set to \<open>false\<close> before the migration, \<open>record\<close> leaves the
  tier's element as it is: the value is the same, so the flag is still \<open>false\<close>, and the
  \<open>changed\<close> flag is the one it had (false, for a new migration).
\<close>

theorem explicit_opt_out_wins:
  assumes "opt_prop (val (element tier (codeActionOnSave m))) fixAll_patched = Some (JBool False)"
  shows "val (element tier (codeActionOnSave (Migration_record m))) =
           val (element tier (codeActionOnSave m))
       \<and> opt_prop (val (element tier (codeActionOnSave (Migration_record m)))) fixAll_patched =
           Some (JBool False)
       \<and> changed (element tier (codeActionOnSave (Migration_record m))) =
           changed (element tier (codeActionOnSave m))"
proof -
  have "codeActionOnSave (Migration_record m) = codeActionOnSave (snd (recordAutoFixOnSave m))"
    using recordValidate_frame[of "fst (recordAutoFixOnSave m)" "snd (recordAutoFixOnSave m)"]
    by (simp add: Migration_record_unfold same_families_def)
  then have "element tier (codeActionOnSave (Migration_record m)) =
             element tier (codeActionOnSave m)"
    using assms by (simp add: recordAutoFixOnSave_element record_explicit_false)
  then show ?thesis using assms by simp
qed

lemmas eval_defs = Migration_new_def MigrationData_create_def recordAutoFixOnSave_def
  recordAutoFixOnSave_record_def fixAll_patched_def set_prop_def Let_def
  recordValidate_def recordValidate_record_def getCodeActionsOnSave_def alloc_def
  disable_fixAll_def Migration_record_def Migration_needsUpdate_def MigrationData_needsUpdate_def
  recordWorkingDirectories_def recordWorkingDirectories_record_def no_values_def language_section_def

lemmas update_defs = Migration_update_def update_try_def do_update_def config_update_def
  update_language_def do_updateLanguageSetting_def language_settings_def validate_json_def

text \<open>
  The witness: the linter's fix-all is switched off globally while the legacy
  \<open>autoFixOnSave\<close> is on.
\<close>

theorem explicit_opt_out_wins_witness:
  "opt_prop (val (element Global (codeActionOnSave (Migration_new cfg_opt_out :: unit Migration))))
     fixAll_patched = Some (JBool False)
   \<and> val (element Global (codeActionOnSave
        (Migration_record (Migration_new cfg_opt_out :: unit Migration)))) =
       Some (JObj [(''source.fixAll.patched'', JBool False)])
   \<and> \<not> changed (element Global (codeActionOnSave
        (Migration_record (Migration_new cfg_opt_out :: unit Migration))))"
proof -
  have h: "opt_prop (val (element Global (codeActionOnSave
             (Migration_new cfg_opt_out :: unit Migration)))) fixAll_patched = Some (JBool False)"
    by (simp add: Migration_new_def cfg_opt_out_def MigrationData_create_def fixAll_patched_def
        no_values_def)
  from explicit_opt_out_wins[OF h] h show ?thesis
    by (simp add: Migration_new_def cfg_opt_out_def MigrationData_create_def no_values_def)
qed


subsection \<open>The fix-all results\<close>

lemma opt_prop_obj:
  "opt_prop v k = map_of (case v of Some (JObj kvs) \<Rightarrow> kvs | _ \<Rightarrow> []) k"
  by (cases "(v, k)" rule: opt_prop.cases) (auto split: json.splits)

lemma tier_result:
  "fst (recordAutoFixOnSave_record elem setting) =
     (if opt_prop (val setting) fixAll_patched = Some (JBool False) then False
      else if truthy (val elem) \<and> \<not> truthy (opt_prop (val setting) ''source.fixAll'') \<and>
              opt_prop (val setting) fixAll_patched = None then True
      else truthy (opt_prop (val setting) ''source.fixAll''))"
proof (cases "val elem")
  case None
  then show ?thesis
    by (auto simp: recordAutoFixOnSave_record_def Let_def opt_prop_obj)
next
  case (Some v)
  then show ?thesis
    by (auto simp: recordAutoFixOnSave_record_def Let_def opt_prop_obj set_prop_def update_conv')
qed

lemma recordAutoFixOnSave_result:
  "fixAll_at (fst (recordAutoFixOnSave m)) tier =
     fst (recordAutoFixOnSave_record (element tier (autoFixOnSave m)) (element tier (codeActionOnSave m)))"
  by (cases tier) (simp_all add: recordAutoFixOnSave_def Let_def split: prod.splits)

lemma recordValidate_cascade:
  "recordValidate r m =
     (let m1 = recordValidate_record (global (validate m)) Global (spec_cascade r Global) m;
          m2 = recordValidate_record (workspace (validate m1)) Workspace
                 (spec_cascade r Workspace) m1
      in recordValidate_record (workspaceFolder (validate m2)) WorkspaceFolder
           (spec_cascade r WorkspaceFolder) m2)"
  by (cases r) (simp add: recordValidate_def Let_def)

text \<open>
  C3 as stated fails: with \<open>source.fixAll.patched\<close> set to \<open>true\<close> globally and no generic
  \<open>source.fixAll\<close>, the flag is defined and true before and after the step, so
  \<open>linterSpecificFlag ?? genericFixAll\<close> is true, but the result of the global tier is
  false: the step returns the generic flag.
\<close>

theorem fixAll_result_counterexample:
  "opt_prop (val (global (codeActionOnSave (Migration_new cfg_flag_true :: unit Migration))))
        fixAll_patched = Some (JBool True)
   \<and> spec_tier_result (val (global (codeActionOnSave (Migration_new cfg_flag_true :: unit Migration))))
   \<and> spec_tier_result (val (global (codeActionOnSave
        (snd (recordAutoFixOnSave (Migration_new cfg_flag_true :: unit Migration))))))
   \<and> fixAll_at (fst (recordAutoFixOnSave (Migration_new cfg_flag_true :: unit Migration))) Global
       = False"
  by (simp add: eval_defs cfg_flag_true_def spec_tier_result_def)

text \<open>
  C3, amended. The result of a tier is false when the tier's linter-specific flag is
  explicitly \<open>false\<close>; true when the step migrates the tier, that is when the legacy
  \<open>autoFixOnSave\<close> value is truthy, the generic \<open>source.fixAll\<close> is falsy and the
  linter-specific flag is unset (the step then sets the flag to the legacy value); and in
  every other case the truthiness of the generic \<open>source.fixAll\<close>, also when the
  linter-specific flag is defined with another value than \<open>false\<close>. The results feed the
  validate-list migration with the tier inheritance the specification describes.
\<close>

theorem fixAll_results_and_cascade:
  "fixAll_at (fst (recordAutoFixOnSave m)) tier =
     (if opt_prop (val (element tier (codeActionOnSave m))) fixAll_patched = Some (JBool False)
      then False
      else if truthy (val (element tier (autoFixOnSave m))) \<and>
              \<not> truthy (opt_prop (val (element tier (codeActionOnSave m))) ''source.fixAll'') \<and>
              opt_prop (val (element tier (codeActionOnSave m))) fixAll_patched = None
      then True
      else truthy (opt_prop (val (element tier (codeActionOnSave m))) ''source.fixAll''))
   \<and> Migration_record m =
       (let r = fst (recordAutoFixOnSave m);
            m0 = snd (recordAutoFixOnSave m);
            m1 = recordValidate_record (global (validate m0)) Global (spec_cascade r Global) m0;
            m2 = recordValidate_record (workspace (validate m1)) Workspace
                   (spec_cascade r Workspace) m1
        in recordValidate_record (workspaceFolder (validate m2)) WorkspaceFolder
             (spec_cascade r WorkspaceFolder) m2)"
proof -
  have "Migration_record m =
          recordValidate (fst (recordAutoFixOnSave m)) (snd (recordAutoFixOnSave m))"
    by (rule Migration_record_unfold)
  then show ?thesis
    by (simp add: recordAutoFixOnSave_result tier_result
        recordValidate_cascade[of "fst (recordAutoFixOnSave m)"] Let_def)
qed

theorem fixAll_results_and_cascade_witness:
  "fixAll_at (fst (recordAutoFixOnSave (Migration_new cfg_legacy :: unit Migration))) Global = True
   \<and> fixAll_at (fst (recordAutoFixOnSave (Migration_new cfg_legacy :: unit Migration))) Workspace = False
   \<and> spec_cascade (fst (recordAutoFixOnSave (Migration_new cfg_legacy :: unit Migration))) Workspace = True
   \<and> languageSpecificSettings (Migration_record (Migration_new cfg_legacy :: unit Migration)) =
       [(''typescript'', 0)]"
  using fixAll_results_and_cascade[of "Migration_new cfg_legacy :: unit Migration" Global]
    fixAll_results_and_cascade[of "Migration_new cfg_legacy :: unit Migration" Workspace]
  by (simp add: eval_defs cfg_legacy_def)


subsection \<open>What \<open>needsUpdate\<close> sees and what one validate entry does\<close>

lemma any_needsUpdate_iff:
  "any_needsUpdate objs as = (\<exists>a \<in> set as. MigrationData_needsUpdate (objs ! a))"
  by (induction as) auto

text \<open>
  X1. \<open>needsUpdate\<close> is true exactly when an element of \<open>autoFixOnSave\<close>, \<open>validate\<close>,
  \<open>codeActionOnSave\<close> or \<open>workingDirectories\<close> is marked, or an element of a per-language
  \<open>MigrationData\<close> that the map \<open>languageSpecificSettings\<close> holds.
\<close>

theorem needsUpdate_iff:
  "Migration_needsUpdate m =
     (MigrationData_needsUpdate (autoFixOnSave m) \<or>
      MigrationData_needsUpdate (validate m) \<or>
      MigrationData_needsUpdate (codeActionOnSave m) \<or>
      MigrationData_needsUpdate (workingDirectories m) \<or>
      (\<exists>a \<in> snd ` set (languageSpecificSettings m). MigrationData_needsUpdate (objects m ! a)))"
  by (auto simp: Migration_needsUpdate_def any_needsUpdate_iff)

lemma disable_fixAll_flag:
  "opt_prop (val (disable_fixAll setting)) fixAll_patched = Some (JBool False)"
  by (auto simp: disable_fixAll_def Let_def set_prop_def update_conv' opt_prop_obj)

lemma disable_fixAll_changed:
  "changed (disable_fixAll setting) =
     (changed setting \<or> opt_prop (val setting) fixAll_patched \<noteq> Some (JBool False))"
  by (auto simp: disable_fixAll_def Let_def opt_prop_obj)

lemma element_element_update [simp]: "element tier (element_update tier e data) = e"
  by (cases tier) simp_all

lemma getCodeActionsOnSave_cached:
  assumes "\<forall>(l, a) \<in> set (languageSpecificSettings m). a < length (objects m)"
    and "workspaceConfig m (language_section language) \<noteq> None \<or>
         map_of (languageSpecificSettings m) language \<noteq> None"
    and "getCodeActionsOnSave language m = (a, m1)"
  shows "map_of (languageSpecificSettings m1) language = Some a \<and> a < length (objects m1)"
proof (cases "map_of (languageSpecificSettings m) language")
  case (Some a0)
  with assms(3) have "a = a0" "m1 = m" by (simp_all add: getCodeActionsOnSave_def)
  moreover from Some have "(language, a0) \<in> set (languageSpecificSettings m)"
    by (rule map_of_SomeD)
  ultimately show ?thesis using assms(1) Some by auto
next
  case None
  with assms(2) obtain v where "workspaceConfig m (language_section language) = Some v"
    by auto
  with None assms(3) show ?thesis
    by (auto simp: getCodeActionsOnSave_def alloc_def Let_def update_conv')
qed

text \<open>
  X2. A validate entry that is an object with \<open>autoFix: false\<close> and a string \<open>language\<close>,
  met with a true cascaded fix-all, for a language that is in the map already or whose
  section \<open>inspect\<close> returns a value: after the turn of the loop the language's data is
  in the map, the linter-specific flag of the tier's element is \<open>false\<close>, and the
  element is marked if it was marked or the flag was not \<open>false\<close> before. The premise on
  the addresses says that the map holds allocated objects, as it does in every migration
  that the constructor and \<open>record\<close> build.
\<close>

theorem recordValidate_item_disables:
  assumes "\<forall>(l, a) \<in> set (languageSpecificSettings m). a < length (objects m)"
    and "workspaceConfig m (language_section language) \<noteq> None \<or>
         map_of (languageSpecificSettings m) language \<noteq> None"
    and "fixAll" and "map_of item ''autoFix'' = Some (JBool False)"
    and "map_of item ''language'' = Some (JStr language)"
  shows "\<exists>a. fst (getCodeActionsOnSave language m) = a
           \<and> map_of (languageSpecificSettings (recordValidate_item (Item item) tier fixAll m))
                language = Some a
           \<and> a < length (objects (recordValidate_item (Item item) tier fixAll m))
           \<and> opt_prop (val (element tier
                 (objects (recordValidate_item (Item item) tier fixAll m) ! a))) fixAll_patched
               = Some (JBool False)
           \<and> changed (element tier (objects (recordValidate_item (Item item) tier fixAll m) ! a))
               = (changed (element tier
                    (objects (snd (getCodeActionsOnSave language m)) ! a)) \<or>
                  opt_prop (val (element tier
                    (objects (snd (getCodeActionsOnSave language m)) ! a))) fixAll_patched
                    \<noteq> Some (JBool False))"
proof -
  obtain a m1 where g: "getCodeActionsOnSave language m = (a, m1)"
    by (cases "getCodeActionsOnSave language m")
  from getCodeActionsOnSave_cached[OF assms(1,2) g]
  have c: "map_of (languageSpecificSettings m1) language = Some a" "a < length (objects m1)"
    by simp_all
  have r: "recordValidate_item (Item item) tier fixAll m =
           m1\<lparr>objects := (objects m1)
                [a := element_update tier (disable_fixAll (element tier (objects m1 ! a)))
                        (objects m1 ! a)]\<rparr>"
    using assms(3,4,5) g by (simp add: Let_def)
  show ?thesis
    unfolding r using c g by (simp add: disable_fixAll_flag disable_fixAll_changed)
qed


theorem recordValidate_item_disables_witness:
  "workspaceConfig (Migration_new cfg_attached :: unit Migration) (language_section ''javascript'')
     \<noteq> None
   \<and> map_of (languageSpecificSettings
        (recordValidate_item
           (Item [(''language'', JStr ''javascript''), (''autoFix'', JBool False)]) Global True
           (Migration_new cfg_attached :: unit Migration))) ''javascript'' = Some 0
   \<and> global (objects
        (recordValidate_item
           (Item [(''language'', JStr ''javascript''), (''autoFix'', JBool False)]) Global True
           (Migration_new cfg_attached :: unit Migration)) ! 0)
       = \<lparr>changed = True, val = Some (JObj [(''source.fixAll.patched'', JBool False)])\<rparr>"
proof -
  have v: "\<forall>(l, a) \<in> set (languageSpecificSettings (Migration_new cfg_attached :: unit Migration)).
             a < length (objects (Migration_new cfg_attached :: unit Migration))"
    by (simp add: Migration_new_def)
  have i: "workspaceConfig (Migration_new cfg_attached :: unit Migration)
             (language_section ''javascript'') \<noteq> None"
    by (simp add: Migration_new_def cfg_attached_def)
  then have w: "workspaceConfig (Migration_new cfg_attached :: unit Migration)
             (language_section ''javascript'') \<noteq> None \<or>
           map_of (languageSpecificSettings (Migration_new cfg_attached :: unit Migration))
             ''javascript'' \<noteq> None"
    by simp
  have f: True
    "map_of [(''language'', JStr ''javascript''), (''autoFix'', JBool False)] ''autoFix''
       = Some (JBool False)"
    "map_of [(''language'', JStr ''javascript''), (''autoFix'', JBool False)] ''language''
       = Some (JStr ''javascript'')"
    by simp_all
  from recordValidate_item_disables[OF v w f, of Global] i
  show ?thesis
    by (simp add: eval_defs cfg_attached_def cfg_detached_def)
qed

text \<open>
  X3. Every other validate entry, a bare string or an object that fails one of the three
  tests, leaves the migration as it is.
\<close>

theorem recordValidate_item_skips:
  "recordValidate_item (Bare s) tier fixAll m = m
   \<and> (\<not> (fixAll \<and> map_of item ''autoFix'' = Some (JBool False) \<and>
          Is_string (map_of item ''language'')) \<longrightarrow>
      recordValidate_item (Item item) tier fixAll m = m)"
  by (auto split: option.splits json.splits)


theorem recordValidate_item_skips_witness:
  "recordValidate_item (Bare ''javascript'') Global True
     (Migration_new cfg_attached :: unit Migration) = Migration_new cfg_attached
   \<and> recordValidate_item
        (Item [(''language'', JStr ''javascript''), (''autoFix'', JBool True)]) Global True
        (Migration_new cfg_attached :: unit Migration) = Migration_new cfg_attached"
  using recordValidate_item_skips
    [where s = "''javascript''" and tier = Global and fixAll = True
       and m = "Migration_new cfg_attached :: unit Migration"
       and item = "[(''language'', JStr ''javascript''), (''autoFix'', JBool True)]"]
  by simp

subsection \<open>Per-language data that the map does not hold\<close>

text \<open>
  C1, evaluated at \<open>cfg_detached\<close>: \<open>record\<close> sets the \<open>changed\<close> flag of the global element
  of the JavaScript data (the object at address 0), but \<open>getCodeActionsOnSave\<close> returned
  that object without putting it into the map, since \<open>inspect\<close> of the language section
  returned \<open>undefined\<close>. The map is empty and \<open>needsUpdate\<close> is false.
\<close>

theorem needsUpdate_misses_detached_element:
  "changed (global (objects (Migration_record (Migration_new cfg_detached :: unit Migration)) ! 0))
   \<and> languageSpecificSettings (Migration_record (Migration_new cfg_detached :: unit Migration)) = []
   \<and> \<not> Migration_needsUpdate (Migration_record (Migration_new cfg_detached :: unit Migration))"
  by (simp add: eval_defs cfg_detached_def)

text \<open>
  C4, evaluated at \<open>cfg_detached\<close> and \<open>cfg_attached\<close>. In both the global validate list
  has the entry \<open>{language: "javascript", autoFix: false}\<close> and the cascaded fix-all of the
  global tier is true. When \<open>inspect\<close> of the language section returns \<open>undefined\<close>, the
  JavaScript data is not in the map after \<open>record\<close> and \<open>update\<close> writes nothing; when it
  returns a value, the data is in the map, its global flag is \<open>false\<close> and marked, and
  \<open>update\<close> writes the language section.
\<close>

theorem validate_entry_not_cached_when_inspect_undefined:
  "map_of (languageSpecificSettings (Migration_record (Migration_new cfg_detached :: unit Migration)))
     ''javascript'' = None
   \<and> snd (snd (Migration_update (\<lambda>t e. True)
        (Migration_record (Migration_new cfg_detached :: unit Migration)) [])) = []
   \<and> map_of (languageSpecificSettings (Migration_record (Migration_new cfg_attached :: unit Migration)))
     ''javascript'' = Some 0
   \<and> global (objects (Migration_record (Migration_new cfg_attached :: unit Migration)) ! 0) =
       \<lparr>changed = True, val = Some (JObj [(''source.fixAll.patched'', JBool False)])\<rparr>
   \<and> snd (snd (Migration_update (\<lambda>t e. True)
        (Migration_record (Migration_new cfg_attached :: unit Migration)) [])) =
       [ConfigUpdate WorkspaceConfig ''[javascript]''
          (Some (JObj [(''editor.codeActionsOnSave'',
                        JObj [(''source.fixAll.patched'', JBool False)])])) Global]"
  by (simp add: eval_defs update_defs cfg_detached_def cfg_attached_def)

subsection \<open>The events of \<open>update\<close>\<close>

lemma emits_onlyI: "(\<And>t. \<exists>ws. snd (f t) = t @ ws \<and> list_all P ws) \<Longrightarrow> emits_only P f"
  by (simp add: emits_only_def)

lemma emits_onlyD: "emits_only P f \<Longrightarrow> \<exists>ws. snd (f t) = t @ ws \<and> list_all P ws"
  by (simp add: emits_only_def)

lemma in_sequence_emits:
  assumes "\<And>f. f \<in> set fs \<Longrightarrow> emits_only P f"
  shows "emits_only P (in_sequence fs)"
proof (rule emits_onlyI)
  fix t
  from assms show "\<exists>ws. snd (in_sequence fs t) = t @ ws \<and> list_all P ws"
  proof (induction fs arbitrary: t)
    case Nil
    then show ?case by simp
  next
    case (Cons f fs)
    from Cons.prems[of f] obtain ws where ws: "snd (f t) = t @ ws" "list_all P ws"
      using emits_onlyD by fastforce
    show ?case
    proof (cases "f t")
      case (Pair r t')
      with ws have t': "t' = t @ ws" by simp
      show ?thesis
      proof (cases r)
        case None
        from Cons.IH[of t'] Cons.prems obtain ws' where
          "snd (in_sequence fs t') = t' @ ws'" "list_all P ws'" by auto
        with Pair None t' ws show ?thesis by auto
      next
        case (Some e)
        with Pair t' ws show ?thesis by auto
      qed
    qed
  qed
qed

lemma config_update_emits: "P e \<Longrightarrow> emits_only P (config_update ok e)"
  by (auto simp: emits_only_def config_update_def)

lemma do_update_emits:
  "(changed v \<Longrightarrow> P (ConfigUpdate c s (val v) tg)) \<Longrightarrow> emits_only P (do_update ok c s v tg)"
  by (auto simp: emits_only_def do_update_def config_update_def)

lemma do_updateLanguageSetting_emits:
  "(\<And>x. P (ConfigUpdate WorkspaceConfig s x tg)) \<Longrightarrow>
   emits_only P (do_updateLanguageSetting ok s settings v tg)"
  by (auto simp: emits_only_def do_updateLanguageSetting_def config_update_def split: sum.splits)

lemma update_language_emits:
  assumes "\<And>language x tg. P (ConfigUpdate WorkspaceConfig (language_section language) x tg)"
  shows "emits_only P (update_language ok m entry)"
proof (cases entry)
  case (Pair language a)
  show ?thesis
  proof (cases "MigrationData_needsUpdate (objects m ! a)")
    case True
    have "emits_only P (in_sequence
               [do_updateLanguageSetting ok (language_section language)
                  (case workspaceConfig m (language_section language) of None \<Rightarrow> None | Some c \<Rightarrow> globalValue c) (global (objects m ! a)) Global,
                do_updateLanguageSetting ok (language_section language)
                  (case workspaceConfig m (language_section language) of None \<Rightarrow> None | Some c \<Rightarrow> workspaceValue c) (workspace (objects m ! a))
                  Workspace,
                do_updateLanguageSetting ok (language_section language)
                  (case workspaceConfig m (language_section language) of None \<Rightarrow> None | Some c \<Rightarrow> workspaceFolderValue c)
                  (workspaceFolder (objects m ! a)) WorkspaceFolder])"
      by (rule in_sequence_emits) (auto intro!: do_updateLanguageSetting_emits assms)
    with Pair True show ?thesis
      by (simp add: update_language_def Let_def emits_only_def)
  next
    case False
    with Pair show ?thesis by (simp add: update_language_def Let_def emits_only_def)
  qed
qed

lemma update_try_emits:
  assumes "\<And>language x tg. P (ConfigUpdate WorkspaceConfig (language_section language) x tg)"
    and "\<And>x tg. P (ConfigUpdate EditorConfig ''codeActionsOnSave'' x tg)"
    and "\<And>tier. changed (element tier (autoFixOnSave m)) \<Longrightarrow>
           P (ConfigUpdate EslintConfig ''autoFixOnSave'' (val (element tier (autoFixOnSave m))) tier)"
    and "\<And>tier. changed (element tier (validate m)) \<Longrightarrow>
           P (ConfigUpdate EslintConfig ''validate'' (val (validate_json (element tier (validate m)))) tier)"
    and "\<And>tier. changed (element tier (workingDirectories m)) \<Longrightarrow>
           P (ConfigUpdate EslintConfig ''workingDirectories'' (val (element tier (workingDirectories m))) tier)"
  shows "emits_only P (update_try ok m)"
  unfolding update_try_def
proof (rule in_sequence_emits)
  fix f
  assume "f \<in> set ([do_update ok EditorConfig ''codeActionsOnSave'' (global (codeActionOnSave m)) Global,
         do_update ok EditorConfig ''codeActionsOnSave'' (workspace (codeActionOnSave m))
           Workspace,
         do_update ok EditorConfig ''codeActionsOnSave''
           (workspaceFolder (codeActionOnSave m)) WorkspaceFolder,
         do_update ok EslintConfig ''autoFixOnSave'' (global (autoFixOnSave m)) Global,
         do_update ok EslintConfig ''autoFixOnSave'' (workspace (autoFixOnSave m)) Workspace,
         do_update ok EslintConfig ''autoFixOnSave'' (workspaceFolder (autoFixOnSave m))
           WorkspaceFolder,
         do_update ok EslintConfig ''validate'' (validate_json (global (validate m))) Global,
         do_update ok EslintConfig ''validate'' (validate_json (workspace (validate m)))
           Workspace,
         do_update ok EslintConfig ''validate''
           (validate_json (workspaceFolder (validate m))) WorkspaceFolder,
         do_update ok EslintConfig ''workingDirectories'' (global (workingDirectories m))
           Global,
         do_update ok EslintConfig ''workingDirectories''
           (workspace (workingDirectories m)) Workspace,
         do_update ok EslintConfig ''workingDirectories''
           (workspaceFolder (workingDirectories m)) WorkspaceFolder]
        @ map (update_language ok m) (languageSpecificSettings m))"
  then consider (fixed) "f \<in> set [do_update ok EditorConfig ''codeActionsOnSave'' (global (codeActionOnSave m)) Global,
         do_update ok EditorConfig ''codeActionsOnSave'' (workspace (codeActionOnSave m))
           Workspace,
         do_update ok EditorConfig ''codeActionsOnSave''
           (workspaceFolder (codeActionOnSave m)) WorkspaceFolder,
         do_update ok EslintConfig ''autoFixOnSave'' (global (autoFixOnSave m)) Global,
         do_update ok EslintConfig ''autoFixOnSave'' (workspace (autoFixOnSave m)) Workspace,
         do_update ok EslintConfig ''autoFixOnSave'' (workspaceFolder (autoFixOnSave m))
           WorkspaceFolder,
         do_update ok EslintConfig ''validate'' (validate_json (global (validate m))) Global,
         do_update ok EslintConfig ''validate'' (validate_json (workspace (validate m)))
           Workspace,
         do_update ok EslintConfig ''validate''
           (validate_json (workspaceFolder (validate m))) WorkspaceFolder,
         do_update ok EslintConfig ''workingDirectories'' (global (workingDirectories m))
           Global,
         do_update ok EslintConfig ''workingDirectories''
           (workspace (workingDirectories m)) Workspace,
         do_update ok EslintConfig ''workingDirectories''
           (workspaceFolder (workingDirectories m)) WorkspaceFolder]"
    | (lang) entry where "f = update_language ok m entry"
    by auto
  then show "emits_only P f"
  proof cases
    case fixed
    have v: "changed (validate_json e) = changed e" for e
      by (simp add: validate_json_def)
    from fixed assms(2) assms(3)[of Global] assms(3)[of Workspace] assms(3)[of WorkspaceFolder]
      assms(4)[of Global] assms(4)[of Workspace] assms(4)[of WorkspaceFolder]
      assms(5)[of Global] assms(5)[of Workspace] assms(5)[of WorkspaceFolder]
    show ?thesis
      by (auto intro!: do_update_emits simp: v)
  next
    case lang
    then show ?thesis using assms(1) by (simp add: update_language_emits)
  qed
qed

lemma emits_filter:
  "emits_only (\<lambda>e. \<not> is_continuation e) f \<Longrightarrow>
   filter is_continuation (snd (f t)) = filter is_continuation t"
proof -
  assume "emits_only (\<lambda>e. \<not> is_continuation e) f"
  then obtain ws where "snd (f t) = t @ ws" "list_all (\<lambda>e. \<not> is_continuation e) ws"
    using emits_onlyD by blast
  then show ?thesis by (simp add: list_all_iff)
qed

lemma update_try_quiet:
  "filter is_continuation (snd (update_try ok m t)) = filter is_continuation t"
  by (rule emits_filter, rule update_try_emits) simp_all

lemma Migration_update_Some:
  "didChangeConfiguration m = Some func \<Longrightarrow>
   Migration_update ok m t =
     (fst (update_try ok m t), m\<lparr>didChangeConfiguration := None\<rparr>,
      snd (update_try ok m t) @ [Continuation func])"
  by (simp add: Migration_update_def split: prod.splits)

lemma Migration_update_None:
  "didChangeConfiguration m = None \<Longrightarrow>
   Migration_update ok m t = (fst (update_try ok m t), m, snd (update_try ok m t))"
  by (simp add: Migration_update_def split: prod.splits)

text \<open>
  C9. On a migration with a registered continuation, \<open>update\<close> returns what its \<open>try\<close>
  block raised, if it raised; its events are those of the \<open>try\<close> block followed by one
  call of the continuation, so the continuation is called exactly once, after the
  writes, whether every write resolved or one was rejected; and a second \<open>update\<close> on the
  migration that the first one left calls no continuation.
\<close>

theorem continuation_exactly_once:
  assumes "didChangeConfiguration m = Some func"
  shows "fst (Migration_update resolves m t) = fst (update_try resolves m t)
       \<and> snd (snd (Migration_update resolves m t)) =
           snd (update_try resolves m t) @ [Continuation func]
       \<and> filter is_continuation (snd (snd (Migration_update resolves m t))) =
           filter is_continuation t @ [Continuation func]
       \<and> filter is_continuation
           (snd (snd (Migration_update resolves' (fst (snd (Migration_update resolves m t)))
                        (snd (snd (Migration_update resolves m t)))))) =
           filter is_continuation (snd (snd (Migration_update resolves m t)))"
proof -
  have 1: "Migration_update resolves m t =
     (fst (update_try resolves m t), m\<lparr>didChangeConfiguration := None\<rparr>,
      snd (update_try resolves m t) @ [Continuation func])"
    using assms by (rule Migration_update_Some)
  have 2: "Migration_update resolves' (m\<lparr>didChangeConfiguration := None\<rparr>) t' =
     (fst (update_try resolves' (m\<lparr>didChangeConfiguration := None\<rparr>) t'),
      m\<lparr>didChangeConfiguration := None\<rparr>,
      snd (update_try resolves' (m\<lparr>didChangeConfiguration := None\<rparr>) t'))" for t'
    by (rule Migration_update_None) simp
  show ?thesis
    by (simp add: 1 2 update_try_quiet)
qed

text \<open>
  The witness: the store rejects every write of the first \<open>update\<close> and accepts every
  write of the second.
\<close>

theorem continuation_exactly_once_witness:
  "didChangeConfiguration
     (captureDidChangeSetting () (Migration_record (Migration_new cfg_legacy))) = Some ()
   \<and> fst (Migration_update (\<lambda>t e. False)
        (captureDidChangeSetting () (Migration_record (Migration_new cfg_legacy))) [])
       = Some UpdateRejected
   \<and> snd (snd (Migration_update (\<lambda>t e. False)
        (captureDidChangeSetting () (Migration_record (Migration_new cfg_legacy))) []))
       = [ConfigUpdate EditorConfig ''codeActionsOnSave''
            (Some (JObj [(''source.fixAll.patched'', JBool True)])) Global,
          Continuation ()]
   \<and> filter is_continuation
        (snd (snd (Migration_update (\<lambda>t e. True)
           (fst (snd (Migration_update (\<lambda>t e. False)
              (captureDidChangeSetting () (Migration_record (Migration_new cfg_legacy))) [])))
           (snd (snd (Migration_update (\<lambda>t e. False)
              (captureDidChangeSetting () (Migration_record (Migration_new cfg_legacy))) []))))))
       = [Continuation ()]"
proof -
  have h: "didChangeConfiguration
     (captureDidChangeSetting () (Migration_record (Migration_new cfg_legacy))) = Some ()"
    by (simp add: captureDidChangeSetting_def)
  have t: "update_try (\<lambda>t e. False)
             (captureDidChangeSetting () (Migration_record (Migration_new cfg_legacy))) [] =
           (Some UpdateRejected,
            [ConfigUpdate EditorConfig ''codeActionsOnSave''
               (Some (JObj [(''source.fixAll.patched'', JBool True)])) Global])"
    by (simp add: eval_defs update_defs cfg_legacy_def captureDidChangeSetting_def)
  note c = continuation_exactly_once[OF h, of "\<lambda>t e. False" "[]" "\<lambda>t e. True"]
  from c t have 1: "fst (Migration_update (\<lambda>t e. False)
        (captureDidChangeSetting () (Migration_record (Migration_new cfg_legacy))) [])
       = Some UpdateRejected"
    by simp
  from c t have 2: "snd (snd (Migration_update (\<lambda>t e. False)
        (captureDidChangeSetting () (Migration_record (Migration_new cfg_legacy))) []))
       = [ConfigUpdate EditorConfig ''codeActionsOnSave''
            (Some (JObj [(''source.fixAll.patched'', JBool True)])) Global,
          Continuation ()]"
    by simp
  from c have "filter is_continuation
        (snd (snd (Migration_update (\<lambda>t e. True)
           (fst (snd (Migration_update (\<lambda>t e. False)
              (captureDidChangeSetting () (Migration_record (Migration_new cfg_legacy))) [])))
           (snd (snd (Migration_update (\<lambda>t e. False)
              (captureDidChangeSetting () (Migration_record (Migration_new cfg_legacy))) []))))))
       = filter is_continuation (snd (snd (Migration_update (\<lambda>t e. False)
        (captureDidChangeSetting () (Migration_record (Migration_new cfg_legacy))) [])))"
    by blast
  also have "\<dots> = [Continuation ()]"
    by (simp only: 2) simp
  finally show ?thesis using h 1 2 by blast
qed

lemma MigrationData_create_unchanged:
  "\<not> changed (element tier (MigrationData_create i))"
  by (cases tier) (simp_all add: MigrationData_create_def split: option.splits)

lemma Migration_record_families:
  "autoFixOnSave (Migration_record m) = autoFixOnSave m \<and>
   validate (Migration_record m) = validate m \<and>
   workingDirectories (Migration_record m) = workingDirectories m"
  using recordValidate_frame[of "fst (recordAutoFixOnSave m)" "snd (recordAutoFixOnSave m)"]
    recordAutoFixOnSave_frame[of m]
  by (simp add: Migration_record_unfold same_families_def)

text \<open>
  C10. For every configuration snapshot, \<open>record\<close> on a new migration leaves the \<open>changed\<close>
  flag of every tier of \<open>autoFixOnSave\<close>, \<open>validate\<close> and \<open>workingDirectories\<close> false, and
  every write of the following \<open>update\<close>, with or without a registered continuation, is
  one of \<open>codeActionsOnSave\<close>, through the editor configuration, or of a language section
  \<open>[languageId]\<close>.
\<close>

theorem legacy_settings_never_written:
  "\<not> changed (element tier (autoFixOnSave (Migration_record (Migration_new cfg :: 'k Migration))))
   \<and> \<not> changed (element tier (validate (Migration_record (Migration_new cfg :: 'k Migration))))
   \<and> \<not> changed (element tier
            (workingDirectories (Migration_record (Migration_new cfg :: 'k Migration))))
   \<and> (\<forall>e \<in> set (snd (snd (Migration_update resolves
                            ((Migration_record (Migration_new cfg :: 'k Migration))
                               \<lparr>didChangeConfiguration := k\<rparr>) []))).
         allowed_write e)"
proof -
  let ?m = "Migration_record (Migration_new cfg) :: 'k Migration"
  let ?mk = "?m\<lparr>didChangeConfiguration := k\<rparr>"
  have fam: "autoFixOnSave ?m = MigrationData_create (inspect_autoFixOnSave cfg)"
    "validate ?m = MigrationData_create (inspect_validate cfg)"
    "workingDirectories ?m = MigrationData_create (inspect_workingDirectories cfg)"
    by (simp_all add: Migration_record_families) (simp_all add: Migration_new_def)
  have un: "\<not> changed (element tier (autoFixOnSave ?m))"
    "\<not> changed (element tier (validate ?m))"
    "\<not> changed (element tier (workingDirectories ?m))" for tier
    by (simp_all add: fam MigrationData_create_unchanged)
  have "emits_only allowed_write (update_try resolves ?mk)"
    by (rule update_try_emits) (auto simp: un)
  then obtain ws where ws: "snd (update_try resolves ?mk []) = [] @ ws" "list_all allowed_write ws"
    using emits_onlyD by blast
  have "list_all allowed_write (snd (snd (Migration_update resolves ?mk [])))"
  proof (cases k)
    case None
    then have "didChangeConfiguration ?mk = None" by simp
    with ws show ?thesis by (simp add: Migration_update_None)
  next
    case (Some func)
    then have "didChangeConfiguration ?mk = Some func" by simp
    with ws show ?thesis by (simp add: Migration_update_Some)
  qed
  with un show ?thesis by (simp add: list_all_iff)
qed

theorem legacy_settings_never_written_witness:
  "\<not> changed (element Global (autoFixOnSave (Migration_record (Migration_new cfg_legacy :: unit Migration))))
   \<and> snd (snd (Migration_update (\<lambda>t e. True)
        (captureDidChangeSetting () (Migration_record (Migration_new cfg_legacy))) []))
       = [ConfigUpdate EditorConfig ''codeActionsOnSave''
            (Some (JObj [(''source.fixAll.patched'', JBool True)])) Global,
          ConfigUpdate WorkspaceConfig ''[typescript]''
            (Some (JObj [(''editor.codeActionsOnSave'',
                          JObj [(''source.fixAll.patched'', JBool False)])])) Global,
          Continuation ()]"
  using legacy_settings_never_written[of Global cfg_legacy "\<lambda>t e. True" "Some ()"]
  by (simp add: eval_defs update_defs cfg_legacy_def captureDidChangeSetting_def)

section \<open>Properties of the working-directory resolution\<close>

lemma scan_entry_mode:
  "is_mode_entry e \<Longrightarrow> scan_entry env w fp wd e = Some (ModeItem e)"
  by (simp add: is_mode_entry_def scan_entry_def)

lemma matches_Nil [simp]: "matches env w fp [] = []"
  by (simp add: matches_def map_filter_simps)

lemma matches_Cons:
  "matches env w fp (e # es) =
     (case entry_match env w fp e of None \<Rightarrow> matches env w fp es
      | Some x \<Rightarrow> x # matches env w fp es)"
  by (simp add: matches_def map_filter_simps split: option.splits)

lemma matches_append: "matches env w fp (xs @ ys) = matches env w fp xs @ matches env w fp ys"
  by (induction xs) (simp_all add: matches_Cons split: option.splits)

lemma scan_entry_other:
  "\<not> is_mode_entry e \<Longrightarrow>
   scan_entry env w fp wd e =
     (case entry_match env w fp e of None \<Rightarrow> wd | Some x \<Rightarrow> pick wd [x])"
  by (auto simp: is_mode_entry_def scan_entry_def entry_match_def
      split: option.splits WorkingDirectory.splits)

lemma scan_entries_pick:
  "\<forall>e \<in> set es. \<not> is_mode_entry e \<Longrightarrow>
   scan_entries env w fp wd es = pick wd (matches env w fp es)"
proof (induction es arbitrary: wd)
  case Nil
  then show ?case by simp
next
  case (Cons e es)
  then show ?case
    by (cases "entry_match env w fp e") (auto simp: scan_entry_other matches_Cons)
qed

lemma scan_entries_append:
  "scan_entries env w fp wd (xs @ ys) = scan_entries env w fp (scan_entries env w fp wd xs) ys"
  by (induction xs arbitrary: wd) simp_all

lemma scan_entries_last_mode:
  "xs \<noteq> [] \<Longrightarrow> is_mode_entry (last xs) \<Longrightarrow>
   scan_entries env w fp wd xs = Some (ModeItem (last xs))"
proof (induction xs arbitrary: wd)
  case Nil
  then show ?case by simp
next
  case (Cons x xs)
  then show ?case by (cases xs) (simp_all add: scan_entry_mode)
qed

lemma pick_directory:
  "\<exists>pre v c post.
     (d, b) # ms = pre @ (v, c) # post \<and>
     (\<forall>x \<in> set pre. length (fst x) < length v) \<and>
     (\<forall>x \<in> set post. length (fst x) \<le> length v) \<and>
     pick (Some (DirectoryItem d b)) ms = Some (DirectoryItem v c)"
proof (induction ms arbitrary: d b)
  case Nil
  have "[(d, b)] = [] @ (d, b) # [] \<and>
        (\<forall>x \<in> set []. length (fst x) < length d) \<and>
        (\<forall>x \<in> set []. length (fst x) \<le> length d) \<and>
        pick (Some (DirectoryItem d b)) [] = Some (DirectoryItem d b)"
    by simp
  then show ?case by blast
next
  case (Cons m ms)
  obtain v0 c0 where m: "m = (v0, c0)" by (cases m)
  show ?case
  proof (cases "length d < length v0")
    case True
    from Cons[of v0 c0] obtain pre v c post where
      h: "(v0, c0) # ms = pre @ (v, c) # post"
         "\<forall>x \<in> set pre. length (fst x) < length v"
         "\<forall>x \<in> set post. length (fst x) \<le> length v"
         "pick (Some (DirectoryItem v0 c0)) ms = Some (DirectoryItem v c)"
      by blast
    have "(v0, c0) \<in> set (pre @ (v, c) # post)"
      using h(1) by (metis list.set_intros(1))
    then have "length v0 \<le> length v"
      using h(2,3) by fastforce
    with True have dv: "length d < length v" by simp
    have pk: "pick (Some (DirectoryItem d b)) (m # ms) = Some (DirectoryItem v c)"
      using m True h(4) by simp
    have eq: "(d, b) # m # ms = ((d, b) # pre) @ (v, c) # post"
      using m h(1) by simp
    from dv h(2) have "\<forall>x \<in> set ((d, b) # pre). length (fst x) < length v"
      by simp
    with pk eq h(3) show ?thesis by blast
  next
    case False
    from Cons[of d b] obtain pre v c post where
      h: "(d, b) # ms = pre @ (v, c) # post"
         "\<forall>x \<in> set pre. length (fst x) < length v"
         "\<forall>x \<in> set post. length (fst x) \<le> length v"
         "pick (Some (DirectoryItem d b)) ms = Some (DirectoryItem v c)"
      by blast
    show ?thesis
    proof (cases pre)
      case Nil
      have pk: "pick (Some (DirectoryItem d b)) (m # ms) = Some (DirectoryItem v c)"
        using m False h(4) by simp
      from Nil h(1) have vd: "v = d" "c = b" "post = ms" by simp_all
      have eq: "(d, b) # m # ms = [] @ (v, c) # ((v0, c0) # ms)"
        using m vd by simp
      from vd False h(3) have "\<forall>x \<in> set ((v0, c0) # ms). length (fst x) \<le> length v"
        by simp
      moreover have "\<forall>x \<in> set ([] :: (string \<times> bool) list). length (fst x) < length v"
        by simp
      ultimately show ?thesis using pk eq by blast
    next
      case (Cons p ps)
      with h(1) have p: "p = (d, b)" "ms = ps @ (v, c) # post" by simp_all
      with h(2) Cons have "length d < length v" by simp
      with False have v0: "length v0 < length v" by simp
      have pk: "pick (Some (DirectoryItem d b)) (m # ms) = Some (DirectoryItem v c)"
        using m False h(4) by simp
      have eq: "(d, b) # m # ms = ((d, b) # (v0, c0) # ps) @ (v, c) # post"
        using m p by simp
      from h(2) Cons p v0
      have "\<forall>x \<in> set ((d, b) # (v0, c0) # ps). length (fst x) < length v"
        by simp
      with pk eq h(3) show ?thesis by blast
    qed
  qed
qed

lemma pick_start:
  assumes "wd = None \<or> (\<exists>m. wd = Some (ModeItem m))" and "ms \<noteq> []"
  shows "\<exists>pre v c post.
     ms = pre @ (v, c) # post \<and>
     (\<forall>x \<in> set pre. length (fst x) < length v) \<and>
     (\<forall>x \<in> set post. length (fst x) \<le> length v) \<and>
     pick wd ms = Some (DirectoryItem v c)"
proof -
  from assms(2) obtain d b rest where ms: "ms = (d, b) # rest"
    by (cases ms) auto
  from assms(1) have "pick wd ms = pick (Some (DirectoryItem d b)) rest"
    by (auto simp: ms)
  with pick_directory[of d b rest] ms show ?thesis by simp
qed

lemmas wd_defs = resolveWorkingDirectory_def scan_entry_def classify_def item_value_def
  LegacyDirectoryItem_is_def DirectoryItem_is_def PatternItem_is_def ModeItem_is_def ModeEnum_is_def
  as_string_def cwd_flag_def posix_env_def posix_isAbsolute_def posix_sep_def directory_entry_def
  entry_match_def is_mode_entry_def matches_def Let_def

lemma scan_entries_start:
  "xs = [] \<or> is_mode_entry (last xs) \<Longrightarrow>
   scan_entries env w fp None xs = (if xs = [] then None else Some (ModeItem (last xs)))"
  by (auto simp: scan_entries_last_mode)

text \<open>
  C7 as stated fails. A mode entry replaces the directory selected so far, and the next
  matching entry replaces the mode entry whatever its length: for the list
  \<open>[{directory: "/a/b"}, {mode: "auto"}, {directory: "/a"}]\<close> and the path \<open>/a/b/c.js\<close>
  both directory entries match and the result is the shorter \<open>/a/\<close>. And the directory
  of the specification's example is not the string \<open>/a/b\<close>: the scan appends the
  separator, so it is \<open>/a/b/\<close>.
\<close>

theorem longest_match_counterexample:
  "entry_match posix_env None (Some ''/a/b/c.js'') (directory_entry ''/a/b'') = Some (''/a/b/'', False)
   \<and> entry_match posix_env None (Some ''/a/b/c.js'') (directory_entry ''/a'') = Some (''/a/'', False)
   \<and> resolveWorkingDirectory posix_env None (Some ''/a/b/c.js'')
        (Some (JArr [directory_entry ''/a/b'', JObj [(''mode'', JStr ''auto'')],
                     directory_entry ''/a'']))
       = Some (DirectoryItem ''/a/'' False)
   \<and> resolveWorkingDirectory posix_env None (Some ''/a/b/c.js'')
        (Some (JArr [directory_entry ''/a'', directory_entry ''/a/b'']))
       \<noteq> Some (DirectoryItem ''/a/b'' False)"
  by (auto simp: wd_defs)

text \<open>
  C7, amended. Let \<open>ys\<close> be the entries after the last mode entry of the list (the whole
  list when it has none, \<open>xs = []\<close>). The resolved working directory is the match of an
  entry of \<open>ys\<close>, with the separator appended to a directory, and no entry of \<open>ys\<close> has
  a longer match; when no entry of \<open>ys\<close> matches, it is the last mode entry, or
  \<open>undefined\<close> when the list has none.
\<close>

theorem longest_match_after_last_mode:
  assumes "\<forall>e \<in> set ys. \<not> is_mode_entry e" and "xs = [] \<or> is_mode_entry (last xs)"
  shows "case resolveWorkingDirectory env w fp (Some (JArr (xs @ ys))) of
           None \<Rightarrow> xs = [] \<and> matches env w fp ys = []
         | Some (ModeItem m) \<Rightarrow> xs \<noteq> [] \<and> m = last xs \<and> matches env w fp ys = []
         | Some (DirectoryItem d c) \<Rightarrow>
             (d, c) \<in> set (matches env w fp ys) \<and>
             (\<forall>x \<in> set (matches env w fp ys). length (fst x) \<le> length d)"
proof -
  let ?wd0 = "if xs = [] then None else Some (ModeItem (last xs))"
  have r: "resolveWorkingDirectory env w fp (Some (JArr (xs @ ys))) =
             pick ?wd0 (matches env w fp ys)"
    using assms
    by (simp add: resolveWorkingDirectory_def scan_entries_append scan_entries_start
        scan_entries_pick)
  show ?thesis
  proof (cases "matches env w fp ys = []")
    case True
    with r show ?thesis by simp
  next
    case False
    have "?wd0 = None \<or> (\<exists>m. ?wd0 = Some (ModeItem m))" by simp
    from pick_start[OF this False] obtain pre v c post where
      h: "matches env w fp ys = pre @ (v, c) # post"
         "\<forall>x \<in> set pre. length (fst x) < length v"
         "\<forall>x \<in> set post. length (fst x) \<le> length v"
         "pick ?wd0 (matches env w fp ys) = Some (DirectoryItem v c)"
      by blast
    from h(1,2,3) have "(v, c) \<in> set (matches env w fp ys)"
      and "\<forall>x \<in> set (matches env w fp ys). length (fst x) \<le> length v"
      by (auto simp: less_imp_le)
    with r h(4) show ?thesis by simp
  qed
qed

text \<open>
  The witness: the specification's example resolves to \<open>/a/b/\<close>; with a mode entry
  before the last entry only that last entry counts.
\<close>

theorem longest_match_after_last_mode_witness:
  "\<not> is_mode_entry (directory_entry ''/a'') \<and> \<not> is_mode_entry (directory_entry ''/a/b'')
   \<and> is_mode_entry (JObj [(''mode'', JStr ''auto'')])
   \<and> resolveWorkingDirectory posix_env None (Some ''/a/b/c.js'')
        (Some (JArr ([] @ [directory_entry ''/a'', directory_entry ''/a/b''])))
       = Some (DirectoryItem ''/a/b/'' False)
   \<and> resolveWorkingDirectory posix_env None (Some ''/a/b/c.js'')
        (Some (JArr ([directory_entry ''/a/b'', JObj [(''mode'', JStr ''auto'')]] @
                     [directory_entry ''/a''])))
       = Some (DirectoryItem ''/a/'' False)"
proof -
  have h: "\<forall>e \<in> set [directory_entry ''/a'', directory_entry ''/a/b'']. \<not> is_mode_entry e"
    "\<forall>e \<in> set [directory_entry ''/a'']. \<not> is_mode_entry e"
    "is_mode_entry (last [directory_entry ''/a/b'', JObj [(''mode'', JStr ''auto'')]])"
    by (auto simp: wd_defs)
  from longest_match_after_last_mode[OF h(1), of "[]" posix_env None "Some ''/a/b/c.js''"]
    longest_match_after_last_mode[OF h(2),
      of "[directory_entry ''/a/b'', JObj [(''mode'', JStr ''auto'')]]" posix_env None
         "Some ''/a/b/c.js''"] h(3)
  show ?thesis by (auto simp: wd_defs)
qed





end
